theory Spec2Isabelle
  imports Main
begin

section \<open>JavaScript values\<close>

text \<open>
  Strings are lists of characters; the Arabic literals of the source are kept as their
  UTF-8 bytes. The program only concatenates strings and tests them for emptiness, so the
  encoding is not observable.

  An optional value (\<^verbatim>\<open>string | undefined\<close>, an absent property) is an \<open>option\<close>,
  with \<open>None\<close> for \<^verbatim>\<open>undefined\<close>.
\<close>

definition truthy :: "string option \<Rightarrow> bool" where
  \<comment> \<open>the truth value JavaScript gives an optional string: defined and not empty\<close>
  "truthy t = (case t of None \<Rightarrow> False | Some x \<Rightarrow> x \<noteq> [])"

definition join :: "string \<Rightarrow> string list \<Rightarrow> string" where
  \<comment> \<open>\<^verbatim>\<open>Array.prototype.join\<close>: the first element, then separator and element in turn\<close>
  "join sep xs = (case xs of [] \<Rightarrow> [] | x # rest \<Rightarrow> foldl (\<lambda>R e. R @ sep @ e) x rest)"

definition slice :: "int \<Rightarrow> int \<Rightarrow> 'a list \<Rightarrow> 'a list" where
  \<comment> \<open>\<^verbatim>\<open>Array.prototype.slice(start, stop)\<close>: negative positions count from the end\<close>
  "slice start stop xs =
     (let len = int (length xs);
          k = (if start < 0 then max (len + start) 0 else min start len);
          final = (if stop < 0 then max (len + stop) 0 else min stop len)
      in take (nat (final - k)) (drop (nat k) xs))"

definition at_index :: "'a list \<Rightarrow> int \<Rightarrow> 'a option" where
  \<comment> \<open>\<^verbatim>\<open>xs[index]\<close>: \<^verbatim>\<open>undefined\<close> outside the array\<close>
  "at_index xs index =
     (if 0 \<le> index \<and> index < int (length xs) then Some (xs ! nat index) else None)"

fun decimal :: "nat \<Rightarrow> string" where
  "decimal n =
     (if n < 10 then [char_of (48 + n)]
      else decimal (n div 10) @ [char_of (48 + n mod 10)])"

declare decimal.simps [simp del]

text \<open>
  A parsed JSON value. \<^verbatim>\<open>JSON.parse\<close> itself is the platform's and is a parameter
  \<open>parse\<close> of the model (\<open>None\<close> when it throws its SyntaxError). A number carries
  the text JavaScript prints for it; an object lists its properties, each key once.
\<close>

datatype json =
    JNull
  | JBool bool
  | JNum string
  | JStr string
  | JArr "json list"
  | JObj "(string \<times> json) list"

text \<open>
  What the program throws: an \<^verbatim>\<open>Error\<close> with its message, a TypeError, or whatever
  the provider's call rejects with (\<open>Rejection\<close>).
\<close>

datatype err = Error string | TypeError | Rejection

fun property :: "json \<Rightarrow> string \<Rightarrow> err + json option" where
  \<comment> \<open>\<^verbatim>\<open>v.key\<close> for a key that no prototype defines: a TypeError on \<^verbatim>\<open>null\<close>,
      the object's own property otherwise, \<^verbatim>\<open>undefined\<close> when there is none\<close>
  "property JNull key = Inl TypeError"
| "property (JObj kvs) key = Inr (map_of kvs key)"
| "property v key = Inr None"

text \<open>
  The string a template literal inserts for a value (\<^verbatim>\<open>ToString\<close>). An array prints
  its elements joined by commas, \<^verbatim>\<open>null\<close> among them as nothing. An object prints
  as \<^verbatim>\<open>[object Object]\<close>, unless it has a property \<^verbatim>\<open>toString\<close> of its own: that
  one is JSON data, not a function, the conversion finds nothing to call that gives a
  string, and throws a TypeError.
\<close>

fun to_text :: "json \<Rightarrow> err + string"
  and texts :: "json list \<Rightarrow> err + string list" where
  "to_text JNull = Inr ''null''"
| "to_text (JBool b) = Inr (if b then ''true'' else ''false'')"
| "to_text (JNum n) = Inr n"
| "to_text (JStr s) = Inr s"
| "to_text (JArr vs) = (case texts vs of Inl e \<Rightarrow> Inl e | Inr ts \<Rightarrow> Inr (join '','' ts))"
| "to_text (JObj kvs) =
     (if map_of kvs ''toString'' = None then Inr ''[object Object]'' else Inl TypeError)"
| "texts [] = Inr []"
| "texts (v # vs) =
     (case (if v = JNull then Inr [] else to_text v) of
        Inl e \<Rightarrow> Inl e
      | Inr t \<Rightarrow> (case texts vs of Inl e \<Rightarrow> Inl e | Inr ts \<Rightarrow> Inr (t # ts)))"

definition template :: "json option \<Rightarrow> err + string" where
  "template v = (case v of None \<Rightarrow> Inr ''undefined'' | Some j \<Rightarrow> to_text j)"

fun all_results :: "(err + 'a) list \<Rightarrow> err + 'a list" where
  \<comment> \<open>the results of \<^verbatim>\<open>.map\<close> with a callback that may throw: the first error, or
      all the values\<close>
  "all_results [] = Inr []"
| "all_results (x # xs) =
     (case x of
        Inl e \<Rightarrow> Inl e
      | Inr v \<Rightarrow> (case all_results xs of Inl e \<Rightarrow> Inl e | Inr vs \<Rightarrow> Inr (v # vs)))"

section \<open>The string literals of the source\<close>

definition msg_api_key :: string where
  "msg_api_key =
    [
     CHR 0x41, CHR 0x50, CHR 0x49, CHR 0x20, CHR 0x4B, CHR 0x65, CHR 0x79, CHR 0x20,
     CHR 0x69, CHR 0x73, CHR 0x20, CHR 0x6D, CHR 0x69, CHR 0x73, CHR 0x73, CHR 0x69,
     CHR 0x6E, CHR 0x67]"

definition msg_no_content :: string where
  "msg_no_content =
    [
     CHR 0x4E, CHR 0x6F, CHR 0x20, CHR 0x63, CHR 0x6F, CHR 0x6E, CHR 0x74, CHR 0x65,
     CHR 0x6E, CHR 0x74, CHR 0x20, CHR 0x67, CHR 0x65, CHR 0x6E, CHR 0x65, CHR 0x72,
     CHR 0x61, CHR 0x74, CHR 0x65, CHR 0x64]"

definition msg_outline_parse :: string where
  "msg_outline_parse =
    [
     CHR 0xD9, CHR 0x81, CHR 0xD8, CHR 0xB4, CHR 0xD9, CHR 0x84, CHR 0x20, CHR 0xD9,
     CHR 0x81, CHR 0xD9, CHR 0x8A, CHR 0x20, CHR 0xD9, CHR 0x85, CHR 0xD8, CHR 0xB9,
     CHR 0xD8, CHR 0xA7, CHR 0xD9, CHR 0x84, CHR 0xD8, CHR 0xAC, CHR 0xD8, CHR 0xA9,
     CHR 0x20, CHR 0xD8, CHR 0xA7, CHR 0xD8, CHR 0xB3, CHR 0xD8, CHR 0xAA, CHR 0xD8,
     CHR 0xAC, CHR 0xD8, CHR 0xA7, CHR 0xD8, CHR 0xA8, CHR 0xD8, CHR 0xA9, CHR 0x20,
     CHR 0xD8, CHR 0xA7, CHR 0xD9, CHR 0x84, CHR 0xD8, CHR 0xB0, CHR 0xD9, CHR 0x83,
     CHR 0xD8, CHR 0xA7, CHR 0xD8, CHR 0xA1, CHR 0x20, CHR 0xD8, CHR 0xA7, CHR 0xD9,
     CHR 0x84, CHR 0xD8, CHR 0xA7, CHR 0xD8, CHR 0xB5, CHR 0xD8, CHR 0xB7, CHR 0xD9,
     CHR 0x86, CHR 0xD8, CHR 0xA7, CHR 0xD8, CHR 0xB9, CHR 0xD9, CHR 0x8A]"

definition msg_outline_failed :: string where
  "msg_outline_failed =
    [
     CHR 0xD8, CHR 0xAD, CHR 0xD8, CHR 0xAF, CHR 0xD8, CHR 0xAB, CHR 0x20, CHR 0xD8,
     CHR 0xAE, CHR 0xD8, CHR 0xB7, CHR 0xD8, CHR 0xA3, CHR 0x20, CHR 0xD8, CHR 0xA3,
     CHR 0xD8, CHR 0xAB, CHR 0xD9, CHR 0x86, CHR 0xD8, CHR 0xA7, CHR 0xD8, CHR 0xA1,
     CHR 0x20, CHR 0xD8, CHR 0xAA, CHR 0xD9, CHR 0x88, CHR 0xD9, CHR 0x84, CHR 0xD9,
     CHR 0x8A, CHR 0xD8, CHR 0xAF, CHR 0x20, CHR 0xD9, CHR 0x85, CHR 0xD8, CHR 0xAE,
     CHR 0xD8, CHR 0xB7, CHR 0xD8, CHR 0xB7, CHR 0x20, CHR 0xD8, CHR 0xA7, CHR 0xD9,
     CHR 0x84, CHR 0xD8, CHR 0xB1, CHR 0xD9, CHR 0x88, CHR 0xD8, CHR 0xA7, CHR 0xD9,
     CHR 0x8A, CHR 0xD8, CHR 0xA9, CHR 0x2E, CHR 0x20, CHR 0xD9, CHR 0x8A, CHR 0xD8,
     CHR 0xB1, CHR 0xD8, CHR 0xAC, CHR 0xD9, CHR 0x89, CHR 0x20, CHR 0xD8, CHR 0xA7,
     CHR 0xD9, CHR 0x84, CHR 0xD8, CHR 0xAA, CHR 0xD8, CHR 0xA3, CHR 0xD9, CHR 0x83,
     CHR 0xD8, CHR 0xAF, CHR 0x20, CHR 0xD9, CHR 0x85, CHR 0xD9, CHR 0x86, CHR 0x20,
     CHR 0xD8, CHR 0xA7, CHR 0xD9, CHR 0x84, CHR 0xD9, CHR 0x85, CHR 0xD9, CHR 0x81,
     CHR 0xD8, CHR 0xAA, CHR 0xD8, CHR 0xA7, CHR 0xD8, CHR 0xAD, CHR 0x20, CHR 0xD8,
     CHR 0xA7, CHR 0xD9, CHR 0x84, CHR 0xD8, CHR 0xA8, CHR 0xD8, CHR 0xB1, CHR 0xD9,
     CHR 0x85, CHR 0xD8, CHR 0xAC, CHR 0xD9, CHR 0x8A, CHR 0x20, CHR 0xD8, CHR 0xA3,
     CHR 0xD9, CHR 0x88, CHR 0x20, CHR 0xD8, CHR 0xA7, CHR 0xD9, CHR 0x84, CHR 0xD9,
     CHR 0x85, CHR 0xD8, CHR 0xAD, CHR 0xD8, CHR 0xA7, CHR 0xD9, CHR 0x88, CHR 0xD9,
     CHR 0x84, CHR 0xD8, CHR 0xA9, CHR 0x20, CHR 0xD9, CHR 0x85, CHR 0xD8, CHR 0xB1,
     CHR 0xD8, CHR 0xA9, CHR 0x20, CHR 0xD8, CHR 0xA3, CHR 0xD8, CHR 0xAE, CHR 0xD8,
     CHR 0xB1, CHR 0xD9, CHR 0x89, CHR 0x2E]"

definition msg_chapter_failed :: string where
  "msg_chapter_failed =
    [
     CHR 0xD9, CHR 0x81, CHR 0xD8, CHR 0xB4, CHR 0xD9, CHR 0x84, CHR 0x20, CHR 0xD9,
     CHR 0x81, CHR 0xD9, CHR 0x8A, CHR 0x20, CHR 0xD8, CHR 0xAA, CHR 0xD9, CHR 0x88,
     CHR 0xD9, CHR 0x84, CHR 0xD9, CHR 0x8A, CHR 0xD8, CHR 0xAF, CHR 0x20, CHR 0xD8,
     CHR 0xA7, CHR 0xD9, CHR 0x84, CHR 0xD9, CHR 0x81, CHR 0xD8, CHR 0xB5, CHR 0xD9,
     CHR 0x84, CHR 0x2E, CHR 0x20, CHR 0xD8, CHR 0xAD, CHR 0xD8, CHR 0xA7, CHR 0xD9,
     CHR 0x88, CHR 0xD9, CHR 0x84, CHR 0x20, CHR 0xD9, CHR 0x85, CHR 0xD8, CHR 0xB1,
     CHR 0xD8, CHR 0xA9, CHR 0x20, CHR 0xD8, CHR 0xA3, CHR 0xD8, CHR 0xAE, CHR 0xD8,
     CHR 0xB1, CHR 0xD9, CHR 0x89, CHR 0x2E]"

definition msg_twist_failed :: string where
  "msg_twist_failed =
    [
     CHR 0xD9, CHR 0x81, CHR 0xD8, CHR 0xB4, CHR 0xD9, CHR 0x84, CHR 0x20, CHR 0xD9,
     CHR 0x81, CHR 0xD9, CHR 0x8A, CHR 0x20, CHR 0xD8, CHR 0xA5, CHR 0xD8, CHR 0xB6,
     CHR 0xD8, CHR 0xA7, CHR 0xD9, CHR 0x81, CHR 0xD8, CHR 0xA9, CHR 0x20, CHR 0xD8,
     CHR 0xA7, CHR 0xD9, CHR 0x84, CHR 0xD8, CHR 0xAD, CHR 0xD8, CHR 0xA8, CHR 0xD9,
     CHR 0x83, CHR 0xD8, CHR 0xA9, CHR 0x2E, CHR 0x20, CHR 0xD8, CHR 0xAD, CHR 0xD8,
     CHR 0xA7, CHR 0xD9, CHR 0x88, CHR 0xD9, CHR 0x84, CHR 0x20, CHR 0xD9, CHR 0x85,
     CHR 0xD8, CHR 0xB1, CHR 0xD8, CHR 0xA9, CHR 0x20, CHR 0xD8, CHR 0xA3, CHR 0xD8,
     CHR 0xAE, CHR 0xD8, CHR 0xB1, CHR 0xD9, CHR 0x89, CHR 0x2E]"

definition no_text_fallback :: string where
  "no_text_fallback =
    [
     CHR 0xD8, CHR 0xB9, CHR 0xD8, CHR 0xB0, CHR 0xD8, CHR 0xB1, CHR 0xD8, CHR 0xA7,
     CHR 0xD9, CHR 0x8B, CHR 0xD8, CHR 0x8C, CHR 0x20, CHR 0xD9, CHR 0x84, CHR 0xD9,
     CHR 0x85, CHR 0x20, CHR 0xD9, CHR 0x8A, CHR 0xD8, CHR 0xAA, CHR 0xD9, CHR 0x85,
     CHR 0x20, CHR 0xD8, CHR 0xA5, CHR 0xD9, CHR 0x86, CHR 0xD8, CHR 0xB4, CHR 0xD8,
     CHR 0xA7, CHR 0xD8, CHR 0xA1, CHR 0x20, CHR 0xD9, CHR 0x86, CHR 0xD8, CHR 0xB5,
     CHR 0x20, CHR 0xD9, CHR 0x84, CHR 0xD9, CHR 0x87, CHR 0xD8, CHR 0xB0, CHR 0xD8,
     CHR 0xA7, CHR 0x20, CHR 0xD8, CHR 0xA7, CHR 0xD9, CHR 0x84, CHR 0xD9, CHR 0x81,
     CHR 0xD8, CHR 0xB5, CHR 0xD9, CHR 0x84, CHR 0x2E]"

definition story_begins :: string where
  "story_begins =
    [
     CHR 0xD8, CHR 0xA8, CHR 0xD8, CHR 0xAF, CHR 0xD8, CHR 0xA7, CHR 0xD9, CHR 0x8A,
     CHR 0xD8, CHR 0xA9, CHR 0x20, CHR 0xD8, CHR 0xA7, CHR 0xD9, CHR 0x84, CHR 0xD9,
     CHR 0x82, CHR 0xD8, CHR 0xB5, CHR 0xD8, CHR 0xA9, CHR 0x2E]"

definition first_chapter_note :: string where
  "first_chapter_note =
    [
     CHR 0xD9, CHR 0x87, CHR 0xD8, CHR 0xB0, CHR 0xD8, CHR 0xA7, CHR 0x20, CHR 0xD9,
     CHR 0x87, CHR 0xD9, CHR 0x88, CHR 0x20, CHR 0xD8, CHR 0xA7, CHR 0xD9, CHR 0x84,
     CHR 0xD9, CHR 0x81, CHR 0xD8, CHR 0xB5, CHR 0xD9, CHR 0x84, CHR 0x20, CHR 0xD8,
     CHR 0xA7, CHR 0xD9, CHR 0x84, CHR 0xD8, CHR 0xA3, CHR 0xD9, CHR 0x88, CHR 0xD9,
     CHR 0x84, CHR 0x2E]"

definition context_word :: string where
  "context_word =
    [
     CHR 0xD9, CHR 0x81, CHR 0xD8, CHR 0xB5, CHR 0xD9, CHR 0x84, CHR 0x20]"

definition export_word :: string where
  "export_word =
    [
     CHR 0xD8, CHR 0xA7, CHR 0xD9, CHR 0x84, CHR 0xD9, CHR 0x81, CHR 0xD8, CHR 0xB5,
     CHR 0xD9, CHR 0x84, CHR 0x20]"

definition export_delimiter :: string where
  "export_delimiter =
    [
     CHR 0x0A, CHR 0x0A, CHR 0x2D, CHR 0x2D, CHR 0x2D, CHR 0x2D, CHR 0x2D, CHR 0x2D,
     CHR 0x2D, CHR 0x2D, CHR 0x2D, CHR 0x2D, CHR 0x2D, CHR 0x2D, CHR 0x2D, CHR 0x2D,
     CHR 0x2D, CHR 0x2D, CHR 0x2D, CHR 0x2D, CHR 0x2D, CHR 0x0A, CHR 0x0A]"

section \<open>The data model (types.ts)\<close>

datatype Genre = FANTASY | SCI_FI | MYSTERY | ROMANCE | HISTORICAL | DRAMA | HORROR | ADVENTURE

datatype Tone = SERIOUS | HUMOROUS | DARK | OPTIMISTIC | MYSTERIOUS

text \<open>
  The session starts with \<^verbatim>\<open>config: {} as NovelConfig\<close>, an object none of whose
  properties is defined, so every field is optional.
\<close>

record NovelConfig =
  title :: "string option"
  genre :: "Genre option"
  tone :: "Tone option"
  protagonist :: "string option"
  setting :: "string option"
  plotSummary :: "string option"
  targetAudience :: "string option"

text \<open>
  \<^verbatim>\<open>Chapter\<close> declares \<^verbatim>\<open>title\<close> and \<^verbatim>\<open>summary\<close> as strings, but
  \<^verbatim>\<open>generateNovelOutline\<close> copies \<^verbatim>\<open>c.title\<close> and \<^verbatim>\<open>c.summary\<close> of the parsed
  response unchecked (\<^verbatim>\<open>c: any\<close>): the fields hold whatever JSON value the provider sent,
  or \<^verbatim>\<open>undefined\<close> when the key is missing. The field \<^verbatim>\<open>id\<close> is \<open>id'\<close> here.
\<close>

record Chapter =
  id' :: nat
  title :: "json option"
  summary :: "json option"
  content :: "string option"
  isGenerating :: "bool option"

record NovelData =
  config :: NovelConfig
  outline :: "Chapter list"
  currentChapterIndex :: int

datatype AppState = SETUP | GENERATING_OUTLINE | READING

section \<open>The generation client (services/geminiService.ts)\<close>

text \<open>
  Each client function builds a prompt from its arguments, makes one call of
  \<^verbatim>\<open>ai.models.generateContent\<close> and awaits it. A \<open>request\<close> names that call by the
  function that makes it and the arguments the prompt is built from; a \<open>reply\<close> is what
  the awaited promise gives: it rejects (\<open>Failed\<close>), or it resolves to a response
  whose \<^verbatim>\<open>text\<close> is a string or \<^verbatim>\<open>undefined\<close>.
\<close>

datatype request =
    OutlineCall NovelConfig
  | TwistCall NovelConfig Chapter string
  | ContentCall NovelConfig Chapter string

datatype reply = Failed | Response "string option"

text \<open>
  A client function either throws before it calls the provider (\<open>Refused\<close>), or issues
  its request and turns the reply into a result or a thrown error (\<open>Sent\<close>).
\<close>

datatype 'a call = Refused err | Sent request "reply \<Rightarrow> err + 'a"

definition result_of :: "'a call \<Rightarrow> reply \<Rightarrow> err + 'a" where
  "result_of c r = (case c of Refused e \<Rightarrow> Inl e | Sent rq f \<Rightarrow> f r)"

fun chapters_from :: "nat \<Rightarrow> json list \<Rightarrow> err + Chapter list" where
  \<comment> \<open>\<^verbatim>\<open>.map((c, index) => ({id: index + 1, title: c.title, summary: c.summary,
      content: undefined}))\<close>, from position \<open>index\<close> on\<close>
  "chapters_from index [] = Inr []"
| "chapters_from index (c # cs) =
     (case property c ''title'' of
        Inl e \<Rightarrow> Inl e
      | Inr t \<Rightarrow>
          (case property c ''summary'' of
             Inl e \<Rightarrow> Inl e
           | Inr sm \<Rightarrow>
               (case chapters_from (index + 1) cs of
                  Inl e \<Rightarrow> Inl e
                | Inr rest \<Rightarrow>
                    Inr (\<lparr>id' = index + 1, title = t, summary = sm, content = None,
                          isGenerating = None\<rparr> # rest))))"

definition outline_of :: "json \<Rightarrow> err + Chapter list" where
  \<comment> \<open>\<^verbatim>\<open>parsed.chapters.map(...)\<close>: only an array has a \<^verbatim>\<open>map\<close> to call\<close>
  "outline_of parsed =
     (case property parsed ''chapters'' of
        Inl e \<Rightarrow> Inl e
      | Inr None \<Rightarrow> Inl TypeError
      | Inr (Some (JArr cs)) \<Rightarrow> chapters_from 0 cs
      | Inr (Some other) \<Rightarrow> Inl TypeError)"

definition generateNovelOutline ::
  "string option \<Rightarrow> (string \<Rightarrow> json option) \<Rightarrow> NovelConfig \<Rightarrow> Chapter list call" where
  "generateNovelOutline apiKey parse cfg =
     (if \<not> truthy apiKey then Refused (Error msg_api_key)
      else Sent (OutlineCall cfg) (\<lambda>r.
        case r of
          Failed \<Rightarrow> Inl Rejection
        | Response None \<Rightarrow> Inl (Error msg_no_content)
        | Response (Some jsonText) \<Rightarrow>
            if jsonText = [] then Inl (Error msg_no_content)
            else (case parse jsonText of
                    None \<Rightarrow> Inl (Error msg_outline_parse)
                  | Some parsed \<Rightarrow>
                      (case outline_of parsed of
                         Inl e \<Rightarrow> Inl (Error msg_outline_parse)
                       | Inr cs \<Rightarrow> Inr cs))))"

text \<open>
  The prompts of the next two functions print the chapter's summary, and the second one
  its title too; the text of the prompt is not modelled beyond that, but printing a value
  may throw (see \<open>to_text\<close>), and then no request is made.
\<close>

definition generatePlotTwist ::
  "string option \<Rightarrow> NovelConfig \<Rightarrow> Chapter \<Rightarrow> string \<Rightarrow> json option call" where
  "generatePlotTwist apiKey cfg chapter previousChaptersSummary =
     (if \<not> truthy apiKey then Refused (Error msg_api_key)
      else
        (case template (summary chapter) of
           Inl e \<Rightarrow> Refused e
         | Inr printed_summary \<Rightarrow>
             Sent (TwistCall cfg chapter previousChaptersSummary) (\<lambda>r.
               case r of
                 Failed \<Rightarrow> Inl Rejection
               | Response None \<Rightarrow> Inr (summary chapter)
               | Response (Some t) \<Rightarrow>
                   Inr (if t = [] then summary chapter else Some (JStr t)))))"

definition generateChapterContent ::
  "string option \<Rightarrow> NovelConfig \<Rightarrow> Chapter \<Rightarrow> string \<Rightarrow> string call" where
  "generateChapterContent apiKey cfg chapter previousChaptersSummary =
     (if \<not> truthy apiKey then Refused (Error msg_api_key)
      else
        (case template (title chapter) of
           Inl e \<Rightarrow> Refused e
         | Inr printed_title \<Rightarrow>
             (case template (summary chapter) of
                Inl e \<Rightarrow> Refused e
              | Inr printed_summary \<Rightarrow>
                  Sent (ContentCall cfg chapter previousChaptersSummary) (\<lambda>r.
                    case r of
                      Failed \<Rightarrow> Inl Rejection
                    | Response None \<Rightarrow> Inr no_text_fallback
                    | Response (Some t) \<Rightarrow> Inr (if t = [] then no_text_fallback else t)))))"

text \<open>
  The place of the prompt that shows the earlier chapters: both prompts put a fixed
  sentence there when the context they are given is empty
  (\<^verbatim>\<open>previousChaptersSummary || "..."\<close>).
\<close>

fun prior_in_prompt :: "request \<Rightarrow> string" where
  "prior_in_prompt (OutlineCall cfg) = []"
| "prior_in_prompt (TwistCall cfg chapter prev) = (if prev = [] then story_begins else prev)"
| "prior_in_prompt (ContentCall cfg chapter prev) =
     (if prev = [] then first_chapter_note else prev)"

section \<open>Session state and asynchronous handlers (App.tsx)\<close>

text \<open>
  The React state of \<^verbatim>\<open>App\<close>, and two logs for the effects that leave it: the
  messages shown with \<^verbatim>\<open>alert\<close> and the files handed to the browser for download
  (name and text), oldest first.
\<close>

record session =
  appState :: AppState
  isLoading :: bool
  error :: "string option"
  novelData :: NovelData
  alerts :: "string list"
  downloads :: "(string \<times> string) list"

definition initial_session :: session where
  "initial_session =
     \<lparr>appState = SETUP, isLoading = False, error = None,
      novelData =
        \<lparr>config = \<lparr>NovelConfig.title = None, genre = None, tone = None, protagonist = None,
                    setting = None, plotSummary = None, targetAudience = None\<rparr>,
         outline = [], currentChapterIndex = 0\<rparr>,
      alerts = [], downloads = []\<rparr>"

text \<open>
  An \<^verbatim>\<open>async\<close> handler is a process: it updates the state, and where it awaits the
  provider it stops with the request it made and the rest of its body, which goes on when
  the reply is there. \<open>Uncaught\<close> is a handler that threw outside any \<^verbatim>\<open>try\<close>: its
  promise rejects and nothing else happens. A state update may be \<open>None\<close>, see
  \<open>patch\<close> below.
\<close>

datatype proc =
    Finished
  | Uncaught err
  | Update "session \<Rightarrow> session option" proc
  | Await request "reply \<Rightarrow> proc"

definition await :: "'a call \<Rightarrow> (err + 'a \<Rightarrow> proc) \<Rightarrow> proc" where
  \<comment> \<open>\<^verbatim>\<open>await\<close> of a client function inside \<^verbatim>\<open>try\<close>: the rest of the body gets the
      value, or the error for its \<^verbatim>\<open>catch\<close>\<close>
  "await c rest = (case c of Refused e \<Rightarrow> rest (Inl e) | Sent rq f \<Rightarrow> Await rq (\<lambda>r. rest (f r)))"

definition setNovelData :: "(NovelData \<Rightarrow> NovelData option) \<Rightarrow> proc \<Rightarrow> proc" where
  "setNovelData f p =
     Update (\<lambda>s. case f (novelData s) of None \<Rightarrow> None | Some nd \<Rightarrow> Some (s\<lparr>novelData := nd\<rparr>)) p"

definition setAppState :: "AppState \<Rightarrow> proc \<Rightarrow> proc" where
  "setAppState v p = Update (\<lambda>s. Some (s\<lparr>appState := v\<rparr>)) p"

definition setIsLoading :: "bool \<Rightarrow> proc \<Rightarrow> proc" where
  "setIsLoading v p = Update (\<lambda>s. Some (s\<lparr>isLoading := v\<rparr>)) p"

definition setError :: "string option \<Rightarrow> proc \<Rightarrow> proc" where
  "setError v p = Update (\<lambda>s. Some (s\<lparr>error := v\<rparr>)) p"

definition alert :: "string \<Rightarrow> proc \<Rightarrow> proc" where
  "alert m p = Update (\<lambda>s. Some (s\<lparr>alerts := alerts s @ [m]\<rparr>)) p"

definition download :: "string \<Rightarrow> string \<Rightarrow> proc \<Rightarrow> proc" where
  "download name text p = Update (\<lambda>s. Some (s\<lparr>downloads := downloads s @ [(name, text)]\<rparr>)) p"

definition patch :: "int \<Rightarrow> (Chapter \<Rightarrow> Chapter) \<Rightarrow> NovelData \<Rightarrow> NovelData option" where
  \<comment> \<open>the updater
      \<^verbatim>\<open>prev => { const newOutline = [...prev.outline];
                 newOutline[index] = { ...newOutline[index], fields };
                 return { ...prev, outline: newOutline }; }\<close>
      with \<open>f\<close> setting the fields. Inside the array it replaces one chapter. Outside
      it JavaScript would grow the array (or add a property to it) and store an object
      without id, title and summary; a \<open>Chapter list\<close> cannot hold that, and the
      update is \<open>None\<close>: the run leaves the model. No session gets there (lemma
      \<open>updates_always_apply\<close>): a handler writes at an index it has found a chapter
      at, and the sequence keeps its length while the reader is shown.\<close>
  "patch index f prev =
     (if 0 \<le> index \<and> index < int (length (outline prev))
      then Some (prev\<lparr>outline := (outline prev)[nat index := f (outline prev ! nat index)]\<rparr>)
      else None)"

definition context_line :: "Chapter \<Rightarrow> err + string" where
  \<comment> \<open>the template literal of the context: the word for chapter, the id, the summary\<close>
  "context_line c =
     (case template (summary c) of
        Inl e \<Rightarrow> Inl e
      | Inr printed_summary \<Rightarrow> Inr (context_word @ decimal (id' c) @ '': '' @ printed_summary))"

definition contextSummary :: "Chapter list \<Rightarrow> int \<Rightarrow> err + string" where
  "contextSummary chapters index =
     (let prevChapters = slice 0 index chapters
      in case all_results (map context_line prevChapters) of
           Inl e \<Rightarrow> Inl e
         | Inr lines \<Rightarrow> Inr (join [CHR 0x0A] lines))"

definition handleStart ::
  "string option \<Rightarrow> (string \<Rightarrow> json option) \<Rightarrow> NovelConfig \<Rightarrow> proc" where
  "handleStart apiKey parse cfg =
     setIsLoading True (setError None
       (await (generateNovelOutline apiKey parse cfg) (\<lambda>r.
          case r of
            Inr ol \<Rightarrow>
              setNovelData (\<lambda>prev. Some \<lparr>config = cfg, outline = ol, currentChapterIndex = 0\<rparr>)
                (setAppState READING (setIsLoading False Finished))
          | Inl e \<Rightarrow> setError (Some msg_outline_failed) (setIsLoading False Finished))))"

text \<open>
  \<^verbatim>\<open>handleGenerateChapter\<close> and \<^verbatim>\<open>handleTwist\<close> read the \<^verbatim>\<open>novelData\<close> of the
  render they were created in (the argument \<open>nd\<close>); their updates are functions of the
  state at the time they are applied. An index is an integer here; a JavaScript number
  that is not one finds no chapter either, like an integer outside the array.
\<close>

definition generate_failed :: "int \<Rightarrow> proc" where
  \<comment> \<open>the \<^verbatim>\<open>catch\<close> block of \<^verbatim>\<open>handleGenerateChapter\<close>\<close>
  "generate_failed index =
     setNovelData (patch index (\<lambda>c. c\<lparr>isGenerating := Some False\<rparr>))
       (alert msg_chapter_failed Finished)"

definition handleGenerateChapter :: "string option \<Rightarrow> NovelData \<Rightarrow> int \<Rightarrow> proc" where
  "handleGenerateChapter apiKey nd index =
     (case at_index (outline nd) index of
        None \<Rightarrow> Uncaught TypeError
      | Some chapter \<Rightarrow>
          if truthy (content chapter) \<or> isGenerating chapter = Some True then Finished
          else
            setNovelData (patch index (\<lambda>c. c\<lparr>isGenerating := Some True\<rparr>))
              (case contextSummary (outline nd) index of
                 Inl e \<Rightarrow> generate_failed index
               | Inr context \<Rightarrow>
                   await (generateChapterContent apiKey (config nd) chapter context) (\<lambda>r.
                     case r of
                       Inl e \<Rightarrow> generate_failed index
                     | Inr text \<Rightarrow>
                         setNovelData
                           (patch index
                              (\<lambda>c. c\<lparr>content := Some text, isGenerating := Some False\<rparr>))
                           Finished)))"

definition twist_failed :: "int \<Rightarrow> proc" where
  \<comment> \<open>the \<^verbatim>\<open>catch\<close> block of \<^verbatim>\<open>handleTwist\<close>\<close>
  "twist_failed index =
     setNovelData (patch index (\<lambda>c. c\<lparr>isGenerating := Some False\<rparr>))
       (alert msg_twist_failed Finished)"

definition handleTwist :: "string option \<Rightarrow> NovelData \<Rightarrow> int \<Rightarrow> proc" where
  "handleTwist apiKey nd index =
     (case at_index (outline nd) index of
        None \<Rightarrow> Uncaught TypeError
      | Some chapter \<Rightarrow>
          if isGenerating chapter = Some True then Finished
          else
            setNovelData (patch index (\<lambda>c. c\<lparr>isGenerating := Some True\<rparr>))
              (case contextSummary (outline nd) index of
                 Inl e \<Rightarrow> twist_failed index
               | Inr context \<Rightarrow>
                   await (generatePlotTwist apiKey (config nd) chapter context) (\<lambda>r.
                     case r of
                       Inl e \<Rightarrow> twist_failed index
                     | Inr newSummary \<Rightarrow>
                         setNovelData (patch index (\<lambda>c. c\<lparr>summary := newSummary\<rparr>))
                           (await (generateChapterContent apiKey (config nd)
                                     (chapter\<lparr>summary := newSummary\<rparr>) context) (\<lambda>r2.
                              case r2 of
                                Inl e \<Rightarrow> twist_failed index
                              | Inr text \<Rightarrow>
                                  setNovelData
                                    (patch index
                                       (\<lambda>c. c\<lparr>summary := newSummary, content := Some text,
                                             isGenerating := Some False\<rparr>))
                                    Finished)))))"

definition handleSelectChapter :: "int \<Rightarrow> proc" where
  "handleSelectChapter index =
     setNovelData (\<lambda>prev. Some (prev\<lparr>currentChapterIndex := index\<rparr>)) Finished"

section \<open>Export (components/NovelReader.tsx)\<close>

definition export_entry :: "Chapter \<Rightarrow> err + string" where
  "export_entry c =
     (case template (title c) of
        Inl e \<Rightarrow> Inl e
      | Inr printed_title \<Rightarrow>
          Inr (export_word @ decimal (id' c) @ '': '' @ printed_title @ [CHR 0x0A, CHR 0x0A]
                 @ (case content c of None \<Rightarrow> ''undefined'' | Some t \<Rightarrow> t)))"

definition fullText :: "NovelData \<Rightarrow> err + string" where
  "fullText data =
     (case all_results (map export_entry (filter (\<lambda>c. truthy (content c)) (outline data))) of
        Inl e \<Rightarrow> Inl e
      | Inr entries \<Rightarrow> Inr (join export_delimiter entries))"

definition export_name :: "NovelData \<Rightarrow> string" where
  \<comment> \<open>the name of the downloaded file: the novel's title and \<^verbatim>\<open>.txt\<close>\<close>
  "export_name data =
     (case NovelConfig.title (config data) of None \<Rightarrow> ''undefined'' | Some t \<Rightarrow> t) @ ''.txt''"

definition handleExport :: "NovelData \<Rightarrow> proc" where
  "handleExport data =
     (case fullText data of
        Inl e \<Rightarrow> Uncaught e
      | Inr text \<Rightarrow> download (export_name data) text Finished)"

text \<open>
  What the reader's render reads first:
  \<^verbatim>\<open>const currentChapter = data.outline[data.currentChapterIndex]\<close>, then, unguarded,
  \<^verbatim>\<open>currentChapter.id\<close> and \<^verbatim>\<open>currentChapter.title\<close> for the heading. Where the cursor
  points at no chapter the render throws a TypeError. (\<^verbatim>\<open>App\<close> reads the same chapter's
  flag with \<^verbatim>\<open>?.\<close>, which gives \<^verbatim>\<open>undefined\<close> there instead.)
\<close>

definition reader_heading :: "NovelData \<Rightarrow> err + nat \<times> json option" where
  "reader_heading data =
     (case at_index (outline data) (currentChapterIndex data) of
        None \<Rightarrow> Inl TypeError
      | Some currentChapter \<Rightarrow> Inr (id' currentChapter, title currentChapter))"

section \<open>Running a handler\<close>

text \<open>
  \<open>run p replies s\<close> runs the process from state \<open>s\<close>, giving it the provider's replies
  in turn, up to its end or to the await no reply is left for. \<open>calls p replies\<close> are
  the requests it makes on the way.
\<close>

primrec run :: "proc \<Rightarrow> reply list \<Rightarrow> session \<Rightarrow> (session \<times> proc) option" where
  "run Finished = (\<lambda>replies s. Some (s, Finished))"
| "run (Uncaught e) = (\<lambda>replies s. Some (s, Uncaught e))"
| "run (Update f p) = (\<lambda>replies s. case f s of None \<Rightarrow> None | Some s' \<Rightarrow> run p replies s')"
| "run (Await rq k) =
     (\<lambda>replies s. case replies of [] \<Rightarrow> Some (s, Await rq k) | r # rs \<Rightarrow> run (k r) rs s)"

primrec calls :: "proc \<Rightarrow> reply list \<Rightarrow> request list" where
  "calls Finished = (\<lambda>replies. [])"
| "calls (Uncaught e) = (\<lambda>replies. [])"
| "calls (Update f p) = (\<lambda>replies. calls p replies)"
| "calls (Await rq k) =
     (\<lambda>replies. rq # (case replies of [] \<Rightarrow> [] | r # rs \<Rightarrow> calls (k r) rs))"

section \<open>Notions of the specification\<close>

abbreviation chapter_at :: "session \<Rightarrow> int \<Rightarrow> Chapter option" where
  "chapter_at s index \<equiv> at_index (outline (novelData s)) index"

text \<open>Texts separated by a delimiter: one delimiter between two neighbours, none outside.\<close>

fun separated :: "string \<Rightarrow> string list \<Rightarrow> string" where
  "separated sep [] = []"
| "separated sep [x] = x"
| "separated sep (x # y # ys) = x @ sep @ separated sep (y # ys)"

text \<open>
  A title or summary is printable when \<open>template\<close> gives a string for it, as it does
  for every string; \<open>printed\<close> is that string.
\<close>

definition prints :: "json option \<Rightarrow> bool" where
  "prints v = (case template v of Inl e \<Rightarrow> False | Inr t \<Rightarrow> True)"

definition printed :: "json option \<Rightarrow> string" where
  "printed v = (case template v of Inl e \<Rightarrow> [] | Inr t \<Rightarrow> t)"

definition printable :: "Chapter \<Rightarrow> bool" where
  "printable c = (prints (title c) \<and> prints (summary c))"

definition continuity_context :: "Chapter list \<Rightarrow> nat \<Rightarrow> string" where
  \<comment> \<open>one line (the word for chapter, the id, the summary) per chapter with index below
      \<open>i\<close>, in chapter order, joined by newlines\<close>
  "continuity_context chapters i =
     separated [CHR 0x0A]
       (map (\<lambda>k. context_word @ decimal (id' (chapters ! k)) @ '': ''
                   @ printed (summary (chapters ! k))) [0..<i])"

definition export_spec :: "Chapter list \<Rightarrow> string" where
  \<comment> \<open>the chapters that have content, by ascending id, separated by the delimiter; a
      chapter is written as its heading (the word for chapter, the id, the title), an empty
      line and its content\<close>
  "export_spec chapters =
     separated export_delimiter
       (map (\<lambda>c. export_word @ decimal (id' c) @ '': '' @ printed (title c)
                   @ [CHR 0x0A, CHR 0x0A]
                   @ (case content c of None \<Rightarrow> [] | Some t \<Rightarrow> t))
          (filter (\<lambda>c. truthy (content c)) (sort_key id' chapters)))"

definition stub_outline :: "json list \<Rightarrow> Chapter list \<Rightarrow> bool" where
  \<comment> \<open>the chapters are the stubs of the response's entries: ids 1, 2, ... in response
      order, title and summary as the entry has them, no content, no flag\<close>
  "stub_outline entries chapters =
     (length chapters = length entries \<and>
      (\<forall>k < length chapters.
         id' (chapters ! k) = k + 1 \<and>
         property (entries ! k) ''title'' = Inr (title (chapters ! k)) \<and>
         property (entries ! k) ''summary'' = Inr (summary (chapters ! k)) \<and>
         content (chapters ! k) = None \<and>
         isGenerating (chapters ! k) = None))"

definition usable_response ::
  "string option \<Rightarrow> (string \<Rightarrow> json option) \<Rightarrow> reply \<Rightarrow> json list \<Rightarrow> bool" where
  \<comment> \<open>the API key is set and the provider answered with a non-empty text that parses to a
      value whose \<^verbatim>\<open>chapters\<close> is the array \<open>entries\<close>, none of them \<^verbatim>\<open>null\<close>\<close>
  "usable_response apiKey parse r entries =
     (truthy apiKey \<and>
      (case r of
         Failed \<Rightarrow> False
       | Response None \<Rightarrow> False
       | Response (Some t) \<Rightarrow>
           t \<noteq> [] \<and>
           (case parse t of
              None \<Rightarrow> False
            | Some parsed \<Rightarrow>
                property parsed ''chapters'' = Inr (Some (JArr entries)) \<and> JNull \<notin> set entries)))"

definition valid_cursor :: "NovelData \<Rightarrow> bool" where
  "valid_cursor nd =
     (0 \<le> currentChapterIndex nd \<and> currentChapterIndex nd < int (length (outline nd)))"

definition cursor_ok :: "NovelData \<Rightarrow> bool" where
  "cursor_ok nd = (if outline nd = [] then currentChapterIndex nd = 0 else valid_cursor nd)"

text \<open>
  The states a session can be in, with the handlers that wait for a reply. An event
  starts a handler on the current state and runs it up to its first await; a reply lets
  one waiting handler go on up to its next await. The events are the ones the page
  offers: in \<open>SETUP\<close> only the form is rendered, and its submit button is disabled while
  \<^verbatim>\<open>isLoading\<close>; in \<open>READING\<close> only the reader is rendered, which selects chapters by
  their position in the list (or the one after the current, if there is one) and has the
  buttons for generating, twisting and exporting. Generating and twisting are taken with
  any index here, though the reader passes the cursor.
\<close>

inductive_set reachable ::
  "string option \<Rightarrow> (string \<Rightarrow> json option) \<Rightarrow> (session \<times> proc list) set"
  for apiKey :: "string option" and parse :: "string \<Rightarrow> json option" where
  initial: "(initial_session, []) \<in> reachable apiKey parse"
| start:
    "(s, ps) \<in> reachable apiKey parse \<Longrightarrow>
     appState s = SETUP \<Longrightarrow> \<not> isLoading s \<Longrightarrow>
     run (handleStart apiKey parse cfg) [] s = Some (s', p) \<Longrightarrow>
     (s', ps @ [p]) \<in> reachable apiKey parse"
| select:
    "(s, ps) \<in> reachable apiKey parse \<Longrightarrow>
     appState s = READING \<Longrightarrow>
     0 \<le> index \<Longrightarrow> index < int (length (outline (novelData s))) \<Longrightarrow>
     run (handleSelectChapter index) [] s = Some (s', p) \<Longrightarrow>
     (s', ps @ [p]) \<in> reachable apiKey parse"
| generate:
    "(s, ps) \<in> reachable apiKey parse \<Longrightarrow>
     appState s = READING \<Longrightarrow>
     run (handleGenerateChapter apiKey (novelData s) index) [] s = Some (s', p) \<Longrightarrow>
     (s', ps @ [p]) \<in> reachable apiKey parse"
| twist:
    "(s, ps) \<in> reachable apiKey parse \<Longrightarrow>
     appState s = READING \<Longrightarrow>
     run (handleTwist apiKey (novelData s) index) [] s = Some (s', p) \<Longrightarrow>
     (s', ps @ [p]) \<in> reachable apiKey parse"
| export:
    "(s, ps) \<in> reachable apiKey parse \<Longrightarrow>
     appState s = READING \<Longrightarrow>
     run (handleExport (novelData s)) [] s = Some (s', p) \<Longrightarrow>
     (s', ps @ [p]) \<in> reachable apiKey parse"
| reply:
    "(s, ps) \<in> reachable apiKey parse \<Longrightarrow>
     j < length ps \<Longrightarrow> ps ! j = Await rq k \<Longrightarrow>
     run (k r) [] s = Some (s', p) \<Longrightarrow>
     (s', ps[j := p]) \<in> reachable apiKey parse"

text \<open>A process none of whose updates breaks \<open>cursor_ok\<close>, whatever the replies.\<close>

primrec keeps_cursor :: "proc \<Rightarrow> bool" where
  "keeps_cursor Finished = True"
| "keeps_cursor (Uncaught e) = True"
| "keeps_cursor (Update f p) =
     ((\<forall>s s'. cursor_ok (novelData s) \<longrightarrow> f s = Some s' \<longrightarrow> cursor_ok (novelData s'))
      \<and> keeps_cursor p)"
| "keeps_cursor (Await rq k) = (\<forall>r. keeps_cursor (k r))"

text \<open>
  A process all of whose updates apply in \<open>READING\<close> to a sequence of \<open>n\<close> chapters,
  and leave it that long; a process that is waiting for a reply; and one that, from
  \<open>SETUP\<close>, runs to its end without waiting and leaves the form either for the reader
  or enabled again.
\<close>

primrec fits :: "nat \<Rightarrow> proc \<Rightarrow> bool" where
  "fits n Finished = True"
| "fits n (Uncaught e) = True"
| "fits n (Update f p) =
     ((\<forall>s. appState s = READING \<and> length (outline (novelData s)) = n \<longrightarrow>
            (\<exists>s'. f s = Some s' \<and> appState s' = READING
                  \<and> length (outline (novelData s')) = n))
      \<and> fits n p)"
| "fits n (Await rq k) = (\<forall>r. fits n (k r))"

definition waiting :: "proc \<Rightarrow> bool" where
  "waiting p = (case p of Await rq k \<Rightarrow> True | _ \<Rightarrow> False)"

definition at_rest :: "proc \<Rightarrow> bool" where
  "at_rest p = (case p of Finished \<Rightarrow> True | Uncaught e \<Rightarrow> True | _ \<Rightarrow> False)"

definition starting :: "proc \<Rightarrow> bool" where
  "starting p =
     (\<forall>s. appState s = SETUP \<longrightarrow>
          (\<exists>s'. run p [] s = Some (s', Finished)
                \<and> (appState s' = READING \<or> (appState s' = SETUP \<and> \<not> isLoading s'))))"

definition steady :: "session \<Rightarrow> proc list \<Rightarrow> bool" where
  \<comment> \<open>what holds of the handlers in flight: in \<open>READING\<close> they fit the chapter sequence;
      in \<open>SETUP\<close> none waits unless \<^verbatim>\<open>isLoading\<close>, and then one at most, started by
      \<^verbatim>\<open>handleStart\<close>\<close>
  "steady s ps =
     ((appState s = SETUP \<or> appState s = READING)
      \<and> (\<forall>p \<in> set ps. waiting p \<or> at_rest p)
      \<and> (appState s = READING \<longrightarrow>
            (\<forall>p \<in> set ps. fits (length (outline (novelData s))) p))
      \<and> (appState s = SETUP \<longrightarrow>
            (\<forall>j < length ps. waiting (ps ! j) \<longrightarrow>
                isLoading s
              \<and> (\<forall>i < length ps. waiting (ps ! i) \<longrightarrow> i = j)
              \<and> (\<exists>rq k. ps ! j = Await rq k \<and> (\<forall>r. starting (k r))))))"

section \<open>A sample session\<close>

definition sample_key :: "string option" where
  "sample_key = Some ''sample-key''"

definition sample_config :: NovelConfig where
  "sample_config =
     \<lparr>NovelConfig.title = Some ''Letters'', genre = Some MYSTERY, tone = Some DARK,
      protagonist = Some ''Salma'', setting = Some ''Cairo'', plotSummary = Some ''A lost letter'',
      targetAudience = Some ''adults''\<rparr>"

definition quoted :: "string \<Rightarrow> string" where
  "quoted x = CHR 0x22 # x @ [CHR 0x22]"

definition empty_outline_text :: string where
  \<comment> \<open>the JSON text of an object whose \<^verbatim>\<open>chapters\<close> is the empty array\<close>
  "empty_outline_text = ''{'' @ quoted ''chapters'' @ '':[]}''"

definition two_chapters_text :: string where
  "two_chapters_text =
     ''{'' @ quoted ''chapters'' @ '':[{'' @ quoted ''title'' @ '':'' @ quoted ''Dawn'' @ '',''
       @ quoted ''summary'' @ '':'' @ quoted ''A letter arrives'' @ ''},{''
       @ quoted ''title'' @ '':'' @ quoted ''Dusk'' @ '','' @ quoted ''summary'' @ '':''
       @ quoted ''The reply'' @ ''}]}''"

definition two_entries :: "json list" where
  "two_entries =
     [JObj [(''title'', JStr ''Dawn''), (''summary'', JStr ''A letter arrives'')],
      JObj [(''title'', JStr ''Dusk''), (''summary'', JStr ''The reply'')]]"

definition sample_parse :: "string \<Rightarrow> json option" where
  \<comment> \<open>\<^verbatim>\<open>JSON.parse\<close> on the two sample texts; any other text counts as malformed here\<close>
  "sample_parse t =
     (if t = empty_outline_text then Some (JObj [(''chapters'', JArr [])])
      else if t = two_chapters_text then Some (JObj [(''chapters'', JArr two_entries)])
      else None)"

definition sample_dawn :: Chapter where
  "sample_dawn =
     \<lparr>id' = 1, title = Some (JStr ''Dawn''), summary = Some (JStr ''A letter arrives''),
      content = None, isGenerating = None\<rparr>"

definition sample_dusk :: Chapter where
  "sample_dusk =
     \<lparr>id' = 2, title = Some (JStr ''Dusk''), summary = Some (JStr ''The reply''),
      content = Some ''Night fell.'', isGenerating = Some True\<rparr>"

definition sample_night :: Chapter where
  "sample_night =
     \<lparr>id' = 3, title = Some (JStr ''Night''), summary = Some (JStr ''Silence''),
      content = Some ''Nobody came.'', isGenerating = Some False\<rparr>"

definition sample_session :: session where
  "sample_session =
     \<lparr>appState = READING, isLoading = False, error = None,
      novelData = \<lparr>config = sample_config, outline = [sample_dawn, sample_dusk, sample_night],
                   currentChapterIndex = 0\<rparr>,
      alerts = [], downloads = []\<rparr>"

definition sample_started :: session where
  \<comment> \<open>the session once the outline of \<open>two_chapters_text\<close> has arrived\<close>
  "sample_started =
     \<lparr>appState = READING, isLoading = False, error = None,
      novelData =
        \<lparr>config = sample_config,
         outline = [sample_dawn, sample_dusk\<lparr>content := None, isGenerating := None\<rparr>],
         currentChapterIndex = 0\<rparr>,
      alerts = [], downloads = []\<rparr>"

section \<open>Lemmas\<close>

lemmas setters =
  setNovelData_def setAppState_def setIsLoading_def setError_def alert_def download_def

lemmas sample_defs =
  sample_key_def sample_config_def sample_session_def sample_dawn_def sample_dusk_def
  sample_night_def sample_started_def



lemma decimal_digits:
  "decimal (Suc 0) = ''1''" "decimal 1 = ''1''" "decimal 2 = ''2''" "decimal 3 = ''3''"
  by code_simp+








subsection \<open>Printable values\<close>

lemma prints_template: "prints v \<Longrightarrow> template v = Inr (printed v)"
  by (simp add: prints_def printed_def split: sum.splits)

lemma prints_string: "prints (Some (JStr t))"
  by (simp add: prints_def template_def)

lemma all_results_map:
  "(\<And>x. x \<in> set xs \<Longrightarrow> f x = Inr (g x)) \<Longrightarrow> all_results (map f xs) = Inr (map g xs)"
  by (induction xs) simp_all

lemma sample_session_printable: "list_all printable (outline (novelData sample_session))"
  by (simp add: sample_defs printable_def prints_string)

lemma context_line_printed:
  "prints (summary c) \<Longrightarrow>
   context_line c = Inr (context_word @ decimal (id' c) @ '': '' @ printed (summary c))"
  by (simp add: context_line_def prints_template)

lemma export_entry_printed:
  "prints (title c) \<Longrightarrow>
   export_entry c =
     Inr (export_word @ decimal (id' c) @ '': '' @ printed (title c) @ [CHR 0x0A, CHR 0x0A]
            @ (case content c of None \<Rightarrow> ''undefined'' | Some t \<Rightarrow> t))"
  by (simp add: export_entry_def prints_template)

subsection \<open>The JavaScript list operations against the specification's\<close>

lemma foldl_sep_prefix:
  "foldl (\<lambda>R e. R @ sep @ e) (a @ x) rest = a @ foldl (\<lambda>R e. R @ sep @ e) x rest"
  by (induction rest arbitrary: x) simp_all

lemma join_Cons2: "join sep (x # y # ys) = x @ sep @ join sep (y # ys)"
  using foldl_sep_prefix [of sep "x @ sep" y ys] by (simp add: join_def)

lemma join_separated: "join sep xs = separated sep xs"
proof (induction sep xs rule: separated.induct)
  case (3 sep x y ys)
  then show ?case by (simp add: join_Cons2)
qed (simp_all add: join_def)

lemma slice_prefix:
  "0 \<le> index \<Longrightarrow> index \<le> int (length xs) \<Longrightarrow> slice 0 index xs = take (nat index) xs"
  by (simp add: slice_def Let_def min_def)

lemma take_as_nth: "i \<le> length xs \<Longrightarrow> take i xs = map (\<lambda>k. xs ! k) [0..<i]"
  by (simp add: list_eq_iff_nth_eq)

lemma contextSummary_spec:
  assumes "at_index chapters index = Some c" and "list_all printable chapters"
  shows "contextSummary chapters index = Inr (continuity_context chapters (nat index))"
proof -
  from assms(1) have range: "0 \<le> index" "nat index \<le> length chapters"
    by (auto simp: at_index_def split: if_splits)
  have "all_results (map context_line (take (nat index) chapters))
          = Inr (map (\<lambda>c. context_word @ decimal (id' c) @ '': '' @ printed (summary c))
                   (take (nat index) chapters))"
  proof (rule all_results_map)
    fix x assume "x \<in> set (take (nat index) chapters)"
    then have "x \<in> set chapters" by (rule in_set_takeD)
    with assms(2) have "prints (summary x)"
      by (simp add: list_all_iff printable_def)
    then show "context_line x
                 = Inr (context_word @ decimal (id' x) @ '': '' @ printed (summary x))"
      by (rule context_line_printed)
  qed
  with range show ?thesis
    by (simp add: contextSummary_def continuity_context_def join_separated slice_prefix
        take_as_nth comp_def)
qed

lemma fullText_spec:
  assumes "sorted (map id' (outline nd))" and "list_all printable (outline nd)"
  shows "fullText nd = Inr (export_spec (outline nd))"
proof -
  let ?kept = "filter (\<lambda>c. truthy (content c)) (outline nd)"
  have "all_results (map export_entry ?kept)
          = Inr (map (\<lambda>c. export_word @ decimal (id' c) @ '': '' @ printed (title c)
                           @ [CHR 0x0A, CHR 0x0A]
                           @ (case content c of None \<Rightarrow> [] | Some t \<Rightarrow> t)) ?kept)"
  proof (rule all_results_map)
    fix x assume x: "x \<in> set ?kept"
    with assms(2) have "prints (title x)"
      by (simp add: list_all_iff printable_def)
    moreover from x obtain t where "content x = Some t"
      by (auto simp: truthy_def split: option.splits)
    ultimately show "export_entry x
                 = Inr (export_word @ decimal (id' x) @ '': '' @ printed (title x)
                          @ [CHR 0x0A, CHR 0x0A]
                          @ (case content x of None \<Rightarrow> [] | Some t \<Rightarrow> t))"
      by (simp add: export_entry_printed)
  qed
  with assms(1) show ?thesis
    by (simp add: fullText_def export_spec_def join_separated sort_key_id_if_sorted)
qed

subsection \<open>The outline of a response\<close>

lemma chapters_from_null: "JNull \<in> set es \<Longrightarrow> \<exists>e. chapters_from n es = Inl e"
proof (induction es arbitrary: n)
  case (Cons a es)
  show ?case
  proof (cases "a = JNull")
    case True
    then show ?thesis by simp
  next
    case False
    with Cons.prems have "JNull \<in> set es" by simp
    from Cons.IH [OF this, of "n + 1"] show ?thesis
      by (auto split: sum.splits)
  qed
qed simp

lemma chapters_from_stub:
  "JNull \<notin> set es \<Longrightarrow>
   \<exists>cs. chapters_from n es = Inr cs \<and> length cs = length es \<and>
     (\<forall>k < length cs.
         id' (cs ! k) = n + k + 1 \<and>
         property (es ! k) ''title'' = Inr (title (cs ! k)) \<and>
         property (es ! k) ''summary'' = Inr (summary (cs ! k)) \<and>
         content (cs ! k) = None \<and>
         isGenerating (cs ! k) = None)"
proof (induction es arbitrary: n)
  case Nil
  then show ?case by simp
next
  case (Cons a es)
  then have a: "a \<noteq> JNull" and es: "JNull \<notin> set es" by auto
  from Cons.IH [OF es, of "n + 1"] obtain cs where
    cs: "chapters_from (n + 1) es = Inr cs" "length cs = length es"
    and rest: "\<forall>k < length cs.
         id' (cs ! k) = (n + 1) + k + 1 \<and>
         property (es ! k) ''title'' = Inr (title (cs ! k)) \<and>
         property (es ! k) ''summary'' = Inr (summary (cs ! k)) \<and>
         content (cs ! k) = None \<and>
         isGenerating (cs ! k) = None"
    by blast
  from a obtain t sm where p: "property a ''title'' = Inr t" "property a ''summary'' = Inr sm"
    by (cases a) auto
  let ?c = "\<lparr>id' = n + 1, title = t, summary = sm, content = None, isGenerating = None\<rparr>"
  have "chapters_from n (a # es) = Inr (?c # cs)"
    using p cs by simp
  moreover have "\<forall>k < length (?c # cs).
         id' ((?c # cs) ! k) = n + k + 1 \<and>
         property ((a # es) ! k) ''title'' = Inr (title ((?c # cs) ! k)) \<and>
         property ((a # es) ! k) ''summary'' = Inr (summary ((?c # cs) ! k)) \<and>
         content ((?c # cs) ! k) = None \<and>
         isGenerating ((?c # cs) ! k) = None"
  proof (intro allI impI)
    fix k assume "k < length (?c # cs)"
    then show "id' ((?c # cs) ! k) = n + k + 1 \<and>
         property ((a # es) ! k) ''title'' = Inr (title ((?c # cs) ! k)) \<and>
         property ((a # es) ! k) ''summary'' = Inr (summary ((?c # cs) ! k)) \<and>
         content ((?c # cs) ! k) = None \<and>
         isGenerating ((?c # cs) ! k) = None"
      using rest p by (cases k) auto
  qed
  ultimately show ?case using cs by auto
qed

lemma outline_of_Inr:
  "(outline_of parsed = Inr cs) =
   (\<exists>es. property parsed ''chapters'' = Inr (Some (JArr es)) \<and> chapters_from 0 es = Inr cs)"
  by (auto simp: outline_of_def split: sum.splits option.splits json.splits)

lemma outline_result_usable:
  assumes "usable_response apiKey parse r es"
  shows "\<exists>cs. result_of (generateNovelOutline apiKey parse cfg) r = Inr cs \<and> stub_outline es cs"
proof -
  from assms obtain t parsed where
    key: "truthy apiKey" and r: "r = Response (Some t)" "t \<noteq> []" and
    parsed: "parse t = Some parsed" "property parsed ''chapters'' = Inr (Some (JArr es))" and
    nonull: "JNull \<notin> set es"
    by (auto simp: usable_response_def split: reply.splits option.splits)
  from chapters_from_stub [OF nonull, of 0] obtain cs where
    cs: "chapters_from 0 es = Inr cs" and stub: "stub_outline es cs"
    by (auto simp: stub_outline_def)
  from parsed cs have "outline_of parsed = Inr cs"
    by (auto simp: outline_of_Inr)
  with key r parsed stub show ?thesis
    by (auto simp: result_of_def generateNovelOutline_def)
qed

lemma outline_result_unusable:
  assumes "\<forall>es. \<not> usable_response apiKey parse r es"
  shows "\<exists>e. result_of (generateNovelOutline apiKey parse cfg) r = Inl e"
proof (rule ccontr)
  assume "\<nexists>e. result_of (generateNovelOutline apiKey parse cfg) r = Inl e"
  then obtain cs where ok: "result_of (generateNovelOutline apiKey parse cfg) r = Inr cs"
    by (cases "result_of (generateNovelOutline apiKey parse cfg) r") auto
  then obtain t parsed where
    key: "truthy apiKey" and r: "r = Response (Some t)" "t \<noteq> []" and
    parsed: "parse t = Some parsed" "outline_of parsed = Inr cs"
    by (auto simp: result_of_def generateNovelOutline_def
        split: if_splits reply.splits option.splits sum.splits)
  from parsed(2) obtain es where
    es: "property parsed ''chapters'' = Inr (Some (JArr es))" "chapters_from 0 es = Inr cs"
    by (auto simp: outline_of_Inr)
  have "JNull \<notin> set es"
    using chapters_from_null [of es 0] es(2) by auto
  with key r parsed es have "usable_response apiKey parse r es"
    by (simp add: usable_response_def)
  with assms show False by blast
qed

lemma run_handleStart:
  "run (handleStart apiKey parse cfg) [r] s =
     (case result_of (generateNovelOutline apiKey parse cfg) r of
        Inr ol \<Rightarrow>
          Some (s\<lparr>isLoading := False, error := None, appState := READING,
                  novelData := \<lparr>config = cfg, outline = ol, currentChapterIndex = 0\<rparr>\<rparr>,
                Finished)
      | Inl e \<Rightarrow> Some (s\<lparr>isLoading := False, error := Some msg_outline_failed\<rparr>, Finished))"
  by (cases "generateNovelOutline apiKey parse cfg")
    (auto simp: handleStart_def setters await_def result_of_def split: sum.splits)

subsection \<open>Updates that keep the cursor\<close>

lemma keeps_cursor_run:
  "keeps_cursor p \<Longrightarrow> cursor_ok (novelData s) \<Longrightarrow> run p replies s = Some (s', p') \<Longrightarrow>
   cursor_ok (novelData s') \<and> keeps_cursor p'"
proof (induction p arbitrary: replies s)
  case (Update f p)
  then show ?case by (auto split: option.splits)
next
  case (Await rq k)
  show ?case
  proof (cases replies)
    case Nil
    with Await.prems show ?thesis by auto
  next
    case (Cons a rest)
    with Await.prems have "run (k a) rest s = Some (s', p')" and "keeps_cursor (k a)"
      by simp_all
    with Await.IH [OF rangeI, of a s rest] Await.prems(2) show ?thesis by blast
  qed
qed auto

lemma patch_cursor_ok: "cursor_ok nd \<Longrightarrow> patch index f nd = Some nd' \<Longrightarrow> cursor_ok nd'"
  by (auto simp: patch_def cursor_ok_def valid_cursor_def split: if_splits)

lemma keeps_patch: "keeps_cursor p \<Longrightarrow> keeps_cursor (setNovelData (patch index f) p)"
  by (auto simp: setNovelData_def split: option.splits dest: patch_cursor_ok)

lemma keeps_alert: "keeps_cursor p \<Longrightarrow> keeps_cursor (alert m p)"
  by (simp add: alert_def)

lemma keeps_await: "(\<And>x. keeps_cursor (rest x)) \<Longrightarrow> keeps_cursor (await c rest)"
  by (cases c) (simp_all add: await_def)

lemma keeps_handleStart: "keeps_cursor (handleStart apiKey parse cfg)"
  unfolding handleStart_def
  by (auto simp: setters cursor_ok_def valid_cursor_def intro!: keeps_await split: sum.splits)

lemma keeps_twist_failed: "keeps_cursor (twist_failed index)"
  by (simp add: twist_failed_def keeps_patch keeps_alert)

lemma keeps_generate_failed: "keeps_cursor (generate_failed index)"
  by (simp add: generate_failed_def keeps_patch keeps_alert)

lemma keeps_handleGenerateChapter: "keeps_cursor (handleGenerateChapter apiKey nd index)"
  unfolding handleGenerateChapter_def
  by (auto split: option.splits sum.splits
      intro!: keeps_patch keeps_await keeps_alert keeps_generate_failed)

lemma keeps_handleTwist: "keeps_cursor (handleTwist apiKey nd index)"
  unfolding handleTwist_def
  by (auto split: option.splits sum.splits
      intro!: keeps_patch keeps_await keeps_alert keeps_twist_failed)

lemma keeps_handleExport: "keeps_cursor (handleExport nd)"
  by (simp add: handleExport_def download_def split: sum.splits)

lemma reachable_invariant:
  "(s, ps) \<in> reachable apiKey parse \<Longrightarrow>
   cursor_ok (novelData s) \<and> (\<forall>p \<in> set ps. keeps_cursor p)"
proof (induction rule: reachable.induct)
  case initial
  show ?case by (simp add: initial_session_def cursor_ok_def)
next
  case (start s ps cfg s' p)
  with keeps_cursor_run [OF keeps_handleStart] show ?case by fastforce
next
  case (select s ps index s' p)
  then show ?case
    by (auto simp: handleSelectChapter_def setNovelData_def cursor_ok_def valid_cursor_def)
next
  case (generate s ps index s' p)
  with keeps_cursor_run [OF keeps_handleGenerateChapter] show ?case by fastforce
next
  case (twist s ps index s' p)
  with keeps_cursor_run [OF keeps_handleTwist] show ?case by fastforce
next
  case (export s ps s' p)
  with keeps_cursor_run [OF keeps_handleExport] show ?case by fastforce
next
  case (reply s ps j rq k r s' p)
  then have "keeps_cursor (ps ! j)" using nth_mem by blast
  with reply have "keeps_cursor (k r)" by simp
  from keeps_cursor_run [OF this] reply have "cursor_ok (novelData s') \<and> keeps_cursor p"
    by blast
  with reply show ?case
    by (auto dest!: set_update_subset_insert [THEN subsetD])
qed

lemma run_resume:
  "run p [] s = Some (s1, Await rq k) \<Longrightarrow> run p (r # rs) s = run (k r) rs s1"
proof (induction p arbitrary: s)
  case (Update f p)
  then show ?case by (auto split: option.splits)
qed auto

subsection \<open>The updates of a session always apply\<close>

lemma run_residual: "run p replies s = Some (s', p') \<Longrightarrow> waiting p' \<or> at_rest p'"
proof (induction p arbitrary: replies s)
  case (Update f p)
  then show ?case by (auto split: option.splits)
next
  case (Await rq k)
  show ?case
  proof (cases replies)
    case Nil
    with Await.prems show ?thesis by (auto simp: waiting_def)
  next
    case (Cons a rest)
    with Await.prems have "run (k a) rest s = Some (s', p')" by simp
    from Await.IH [OF rangeI this] show ?thesis .
  qed
qed (auto simp: at_rest_def)

lemma at_rest_fits: "at_rest p \<Longrightarrow> fits n p"
  by (cases p) (simp_all add: at_rest_def)

lemma at_rest_not_waiting: "at_rest p \<Longrightarrow> \<not> waiting p"
  by (cases p) (simp_all add: at_rest_def waiting_def)

lemma fits_run:
  "fits n p \<Longrightarrow> appState s = READING \<Longrightarrow> length (outline (novelData s)) = n \<Longrightarrow>
   \<exists>s' p'. run p replies s = Some (s', p') \<and> appState s' = READING
          \<and> length (outline (novelData s')) = n \<and> fits n p'"
proof (induction p arbitrary: replies s)
  case (Update f p)
  then obtain s1 where "f s = Some s1" "appState s1 = READING"
    "length (outline (novelData s1)) = n"
    by auto
  with Update.IH [of s1 replies] Update.prems(1) show ?case by simp
next
  case (Await rq k)
  show ?case
  proof (cases replies)
    case Nil
    with Await.prems show ?thesis by simp
  next
    case (Cons a rest)
    from Await.prems have "fits n (k a)" by simp
    from Await.IH [OF rangeI this Await.prems(2,3), of rest] Cons show ?thesis by simp
  qed
qed simp_all

lemma fits_patch:
  "0 \<le> index \<Longrightarrow> index < int n \<Longrightarrow> fits n p \<Longrightarrow>
   fits n (setNovelData (patch index f) p)"
  by (auto simp: setNovelData_def patch_def)

lemma fits_alert: "fits n p \<Longrightarrow> fits n (alert m p)"
  by (simp add: alert_def)

lemma fits_await: "(\<And>x. fits n (rest x)) \<Longrightarrow> fits n (await c rest)"
  by (cases c) (simp_all add: await_def)

lemma fits_handleGenerateChapter:
  "length (outline nd) = n \<Longrightarrow> fits n (handleGenerateChapter apiKey nd index)"
  unfolding handleGenerateChapter_def generate_failed_def
  by (auto simp: at_index_def split: option.splits sum.splits if_splits
      intro!: fits_patch fits_await fits_alert)

lemma fits_handleTwist:
  "length (outline nd) = n \<Longrightarrow> fits n (handleTwist apiKey nd index)"
  unfolding handleTwist_def twist_failed_def
  by (auto simp: at_index_def split: option.splits sum.splits if_splits
      intro!: fits_patch fits_await fits_alert)

lemma fits_handleExport: "fits n (handleExport nd)"
  by (simp add: handleExport_def download_def split: sum.splits)

lemma fits_handleSelectChapter: "fits n (handleSelectChapter index)"
  by (simp add: handleSelectChapter_def setNovelData_def)

lemma handleStart_begin:
  assumes "run (handleStart apiKey parse cfg) [] s = Some (s', p)"
  shows "appState s' = appState s
       \<and> ((p = Finished \<and> \<not> isLoading s')
          \<or> (isLoading s' \<and> (\<exists>rq k. p = Await rq k \<and> (\<forall>r. starting (k r)))))"
proof (cases "truthy apiKey")
  case False
  with assms show ?thesis
    by (auto simp: handleStart_def setters await_def generateNovelOutline_def)
next
  case True
  with assms show ?thesis
    by (auto simp: handleStart_def setters await_def generateNovelOutline_def starting_def
        split: sum.splits)
qed

lemma steady_quiet:
  assumes "appState s = SETUP \<or> appState s = READING" and "\<forall>q \<in> set ps. at_rest q"
  shows "steady s ps"
proof -
  have "\<not> waiting (ps ! i)" if "i < length ps" for i
    using that assms(2) at_rest_not_waiting nth_mem by blast
  with assms show ?thesis
    by (auto simp: steady_def at_rest_fits)
qed

lemma steady_reading:
  "appState s = READING \<Longrightarrow>
   steady s ps =
     ((\<forall>p \<in> set ps. waiting p \<or> at_rest p)
      \<and> (\<forall>p \<in> set ps. fits (length (outline (novelData s))) p))"
  by (simp add: steady_def)

lemma steady_reading_append:
  assumes "steady s ps" and "appState s = READING" and "appState s' = READING"
    and "length (outline (novelData s')) = length (outline (novelData s))"
    and "fits (length (outline (novelData s))) p" and "waiting p \<or> at_rest p"
  shows "steady s' (ps @ [p])"
  using assms by (simp add: steady_reading)

lemma steady_reading_update:
  assumes "steady s ps" and "appState s = READING" and "appState s' = READING"
    and "length (outline (novelData s')) = length (outline (novelData s))"
    and "fits (length (outline (novelData s))) p" and "waiting p \<or> at_rest p"
  shows "steady s' (ps[j := p])"
proof -
  have "q = p \<or> q \<in> set ps" if "q \<in> set (ps[j := p])" for q
    using that set_update_subset_insert [of ps j p] by auto
  with assms show ?thesis
    by (simp add: steady_reading) blast
qed

lemma steady_setup_waiting:
  assumes "steady s ps" and "appState s = SETUP" and "j < length ps" and "waiting (ps ! j)"
  shows "isLoading s" and "\<forall>i < length ps. waiting (ps ! i) \<longrightarrow> i = j"
    and "\<exists>rq k. ps ! j = Await rq k \<and> (\<forall>r. starting (k r))"
proof -
  from assms(1,2) have
    "\<forall>j < length ps. waiting (ps ! j) \<longrightarrow>
        isLoading s
      \<and> (\<forall>i < length ps. waiting (ps ! i) \<longrightarrow> i = j)
      \<and> (\<exists>rq k. ps ! j = Await rq k \<and> (\<forall>r. starting (k r)))"
    unfolding steady_def by blast
  with assms(3,4) show "isLoading s" and "\<forall>i < length ps. waiting (ps ! i) \<longrightarrow> i = j"
    and "\<exists>rq k. ps ! j = Await rq k \<and> (\<forall>r. starting (k r))"
    by blast+
qed

lemma steady_setup_started:
  assumes "appState s = SETUP" and "isLoading s" and "\<forall>q \<in> set ps. at_rest q"
    and "\<forall>r. starting (k r)"
  shows "steady s (ps @ [Await rq k])"
proof -
  have others: "\<not> waiting (ps ! i)" if "i < length ps" for i
    using that assms(3) at_rest_not_waiting nth_mem by blast
  have last: "i = length ps" if "i < length (ps @ [Await rq k])"
      "waiting ((ps @ [Await rq k]) ! i)" for i
  proof (rule ccontr)
    assume "i \<noteq> length ps"
    with that(1) have "i < length ps" by simp
    with that(2) others [of i] show False by (simp add: nth_append)
  qed
  have "\<forall>q \<in> set (ps @ [Await rq k]). waiting q \<or> at_rest q"
    using assms(3) by (auto simp: waiting_def)
  moreover have "\<forall>j < length (ps @ [Await rq k]). waiting ((ps @ [Await rq k]) ! j) \<longrightarrow>
        isLoading s
      \<and> (\<forall>i < length (ps @ [Await rq k]). waiting ((ps @ [Await rq k]) ! i) \<longrightarrow> i = j)
      \<and> (\<exists>rq' k'. (ps @ [Await rq k]) ! j = Await rq' k' \<and> (\<forall>r. starting (k' r)))"
  proof (intro allI impI)
    fix j assume j: "j < length (ps @ [Await rq k])" "waiting ((ps @ [Await rq k]) ! j)"
    from last [OF j] have jl: "j = length ps" .
    have "\<forall>i < length (ps @ [Await rq k]). waiting ((ps @ [Await rq k]) ! i) \<longrightarrow> i = j"
      using last jl by blast
    moreover have "\<exists>rq' k'. (ps @ [Await rq k]) ! j = Await rq' k' \<and> (\<forall>r. starting (k' r))"
      using jl assms(4) by simp
    ultimately show "isLoading s
      \<and> (\<forall>i < length (ps @ [Await rq k]). waiting ((ps @ [Await rq k]) ! i) \<longrightarrow> i = j)
      \<and> (\<exists>rq' k'. (ps @ [Await rq k]) ! j = Await rq' k' \<and> (\<forall>r. starting (k' r)))"
      using assms(2) by blast
  qed
  ultimately show ?thesis
    using assms(1) unfolding steady_def by simp
qed

lemma steady_residual: "steady s ps \<Longrightarrow> q \<in> set ps \<Longrightarrow> waiting q \<or> at_rest q"
  unfolding steady_def by blast

lemma steady_phase: "steady s ps \<Longrightarrow> appState s = SETUP \<or> appState s = READING"
  unfolding steady_def by blast

lemma reachable_steady: "(s, ps) \<in> reachable apiKey parse \<Longrightarrow> steady s ps"
proof (induction rule: reachable.induct)
  case initial
  show ?case by (simp add: steady_def initial_session_def)
next
  case (start s ps cfg s' p)
  have quiet: "\<forall>q \<in> set ps. at_rest q"
  proof
    fix q assume q: "q \<in> set ps"
    then obtain i where i: "i < length ps" "q = ps ! i"
      by (auto simp: in_set_conv_nth)
    have "\<not> waiting q"
    proof
      assume "waiting q"
      with steady_setup_waiting(1) [OF start.IH start.hyps(2) i(1)] i(2) start.hyps(3)
      show False by simp
    qed
    with steady_residual [OF start.IH q] show "at_rest q" by simp
  qed
  from handleStart_begin [OF start.hyps(4)] start.hyps(2)
  have st: "appState s' = SETUP"
    and p: "(p = Finished \<and> \<not> isLoading s')
          \<or> (isLoading s' \<and> (\<exists>rq k. p = Await rq k \<and> (\<forall>r. starting (k r))))"
    by simp_all
  from p show ?case
  proof
    assume "p = Finished \<and> \<not> isLoading s'"
    with quiet have "\<forall>q \<in> set (ps @ [p]). at_rest q"
      by (simp add: at_rest_def)
    with st show ?thesis by (simp add: steady_quiet)
  next
    assume "isLoading s' \<and> (\<exists>rq k. p = Await rq k \<and> (\<forall>r. starting (k r)))"
    then obtain rq k where load: "isLoading s'" and pk: "p = Await rq k"
      and sk: "\<forall>r. starting (k r)" by blast
    from steady_setup_started [OF st load quiet sk] pk show ?thesis by simp
  qed
next
  case (select s ps index s' p)
  let ?n = "length (outline (novelData s))"
  from fits_run [OF fits_handleSelectChapter select.hyps(2) refl, of index "[]"]
    select.hyps(5)
  have s': "appState s' = READING" "length (outline (novelData s')) = ?n" "fits ?n p"
    by auto
  from steady_reading_append [OF select.IH select.hyps(2) s' run_residual [OF select.hyps(5)]]
  show ?case .
next
  case (generate s ps index s' p)
  let ?n = "length (outline (novelData s))"
  from fits_run [OF fits_handleGenerateChapter [OF refl] generate.hyps(2) refl,
      of apiKey index "[]"] generate.hyps(3)
  have s': "appState s' = READING" "length (outline (novelData s')) = ?n" "fits ?n p"
    by auto
  from steady_reading_append
    [OF generate.IH generate.hyps(2) s' run_residual [OF generate.hyps(3)]]
  show ?case .
next
  case (twist s ps index s' p)
  let ?n = "length (outline (novelData s))"
  from fits_run [OF fits_handleTwist [OF refl] twist.hyps(2) refl, of apiKey index "[]"]
    twist.hyps(3)
  have s': "appState s' = READING" "length (outline (novelData s')) = ?n" "fits ?n p"
    by auto
  from steady_reading_append [OF twist.IH twist.hyps(2) s' run_residual [OF twist.hyps(3)]]
  show ?case .
next
  case (export s ps s' p)
  let ?n = "length (outline (novelData s))"
  from fits_run [OF fits_handleExport export.hyps(2) refl, of "novelData s" "[]"]
    export.hyps(3)
  have s': "appState s' = READING" "length (outline (novelData s')) = ?n" "fits ?n p"
    by auto
  from steady_reading_append [OF export.IH export.hyps(2) s' run_residual [OF export.hyps(3)]]
  show ?case .
next
  case (reply s ps j rq k r s' p)
  have wj: "waiting (ps ! j)" using reply.hyps(3) by (simp add: waiting_def)
  from steady_phase [OF reply.IH] show ?case
  proof
    assume reading: "appState s = READING"
    let ?n = "length (outline (novelData s))"
    from reply.IH reading reply.hyps(2) have "fits ?n (ps ! j)"
      by (simp add: steady_reading)
    with reply.hyps(3) have "fits ?n (k r)" by simp
    from fits_run [OF this reading refl, of "[]"] reply.hyps(4)
    have s': "appState s' = READING" "length (outline (novelData s')) = ?n" "fits ?n p"
      by auto
    from steady_reading_update [OF reply.IH reading s' run_residual [OF reply.hyps(4)]]
    show ?thesis .
  next
    assume st: "appState s = SETUP"
    note w = steady_setup_waiting [OF reply.IH st reply.hyps(2) wj]
    from w(3) reply.hyps(3) have "starting (k r)" by auto
    with st obtain s1 where
      "run (k r) [] s = Some (s1, Finished)"
      "appState s1 = READING \<or> (appState s1 = SETUP \<and> \<not> isLoading s1)"
      unfolding starting_def by blast
    with reply.hyps(4) have ended: "p = Finished"
      and after: "appState s' = SETUP \<or> appState s' = READING"
      by auto
    have "at_rest q" if "q \<in> set (ps[j := p])" for q
    proof -
      from that obtain i where i: "i < length ps" "q = ps[j := p] ! i"
        by (auto simp: in_set_conv_nth)
      show ?thesis
      proof (cases "i = j")
        case True
        with i ended show ?thesis by (simp add: at_rest_def)
      next
        case False
        with i have q: "q = ps ! i" by simp
        from w(2) i False have "\<not> waiting (ps ! i)" by blast
        moreover from steady_residual [OF reply.IH nth_mem [OF i(1)]]
        have "waiting (ps ! i) \<or> at_rest (ps ! i)" .
        ultimately show ?thesis using q by simp
      qed
    qed
    then have "\<forall>q \<in> set (ps[j := p]). at_rest q" by blast
    with after show ?thesis by (simp add: steady_quiet)
  qed
qed

lemma updates_always_apply:
  assumes "(s, ps) \<in> reachable apiKey parse"
  shows "(appState s = SETUP \<longrightarrow> run (handleStart apiKey parse cfg) [] s \<noteq> None)
       \<and> (appState s = READING \<longrightarrow>
            run (handleSelectChapter index) [] s \<noteq> None
          \<and> run (handleGenerateChapter apiKey (novelData s) index) [] s \<noteq> None
          \<and> run (handleTwist apiKey (novelData s) index) [] s \<noteq> None
          \<and> run (handleExport (novelData s)) [] s \<noteq> None)
       \<and> (j < length ps \<and> ps ! j = Await rq k \<longrightarrow> run (k r) [] s \<noteq> None)"
proof (intro conjI impI)
  show "run (handleStart apiKey parse cfg) [] s \<noteq> None"
    by (cases "truthy apiKey")
      (simp_all add: handleStart_def setters await_def generateNovelOutline_def)
next
  assume reading: "appState s = READING"
  have defined: "run p [] s \<noteq> None" if "fits (length (outline (novelData s))) p" for p
    using fits_run [OF that reading refl, of "[]"] by auto
  show "run (handleSelectChapter index) [] s \<noteq> None"
    by (rule defined) (rule fits_handleSelectChapter)
  show "run (handleGenerateChapter apiKey (novelData s) index) [] s \<noteq> None"
    by (rule defined) (rule fits_handleGenerateChapter [OF refl])
  show "run (handleTwist apiKey (novelData s) index) [] s \<noteq> None"
    by (rule defined) (rule fits_handleTwist [OF refl])
  show "run (handleExport (novelData s)) [] s \<noteq> None"
    by (rule defined) (rule fits_handleExport)
next
  assume "j < length ps \<and> ps ! j = Await rq k"
  then have j: "j < length ps" and pj: "ps ! j = Await rq k" by simp_all
  from reachable_steady [OF assms] have steady: "steady s ps" .
  from steady_phase [OF steady] show "run (k r) [] s \<noteq> None"
  proof
    assume reading: "appState s = READING"
    with steady j have "fits (length (outline (novelData s))) (ps ! j)"
      by (simp add: steady_reading)
    with pj have "fits (length (outline (novelData s))) (k r)" by simp
    from fits_run [OF this reading refl, of "[]"] show ?thesis by auto
  next
    assume st: "appState s = SETUP"
    from pj have "waiting (ps ! j)" by (simp add: waiting_def)
    from steady_setup_waiting(3) [OF steady st j this] pj have "starting (k r)" by auto
    with st show ?thesis unfolding starting_def by fastforce
  qed
qed

section \<open>The outline step\<close>

text \<open>
  What \<^verbatim>\<open>handleStart\<close> does with every reply. Started in \<open>SETUP\<close>, it always
  finishes with the loading flag off, in one of two ways. If the response is usable (the
  key is set, the text is not empty and parses, its \<^verbatim>\<open>chapters\<close> is an array without
  \<^verbatim>\<open>null\<close>), the session is in \<open>READING\<close> with no error, the cursor at 0, and one
  stub per entry: ids 1, 2, ... in response order, title and summary as the entry has
  them, no content and no flag. Otherwise the session stays in \<open>SETUP\<close>, the error
  message is set and the novel data are untouched. Malformed JSON is never usable.
\<close>

lemma outline_step:
  assumes "appState s = SETUP"
  shows "\<exists>s'. run (handleStart apiKey parse cfg) [r] s = Some (s', Finished)
          \<and> \<not> isLoading s'
          \<and> (\<forall>es. usable_response apiKey parse r es \<longrightarrow>
                appState s' = READING \<and> error s' = None
              \<and> config (novelData s') = cfg \<and> currentChapterIndex (novelData s') = 0
              \<and> stub_outline es (outline (novelData s')))
          \<and> ((\<forall>es. \<not> usable_response apiKey parse r es) \<longrightarrow>
                appState s' = SETUP \<and> error s' = Some msg_outline_failed
              \<and> novelData s' = novelData s)"
proof (cases "\<exists>es. usable_response apiKey parse r es")
  case True
  then obtain es where es: "usable_response apiKey parse r es" ..
  have same: "es' = es" if "usable_response apiKey parse r es'" for es'
    using that es by (auto simp: usable_response_def split: reply.splits option.splits)
  from outline_result_usable [OF es, of cfg] obtain cs where
    cs: "result_of (generateNovelOutline apiKey parse cfg) r = Inr cs" "stub_outline es cs"
    by blast
  let ?s' = "s\<lparr>isLoading := False, error := None, appState := READING,
               novelData := \<lparr>config = cfg, outline = cs, currentChapterIndex = 0\<rparr>\<rparr>"
  have "run (handleStart apiKey parse cfg) [r] s = Some (?s', Finished)"
    using cs(1) by (simp add: run_handleStart)
  moreover have "\<forall>es'. usable_response apiKey parse r es' \<longrightarrow>
                appState ?s' = READING \<and> error ?s' = None
              \<and> config (novelData ?s') = cfg \<and> currentChapterIndex (novelData ?s') = 0
              \<and> stub_outline es' (outline (novelData ?s'))"
    using cs(2) same by auto
  moreover have "\<not> (\<forall>es. \<not> usable_response apiKey parse r es)"
    using es by blast
  ultimately show ?thesis
    by (intro exI [of _ ?s']) simp
next
  case False
  then have none: "\<forall>es. \<not> usable_response apiKey parse r es" by blast
  from outline_result_unusable [OF none, of cfg] obtain e where
    "result_of (generateNovelOutline apiKey parse cfg) r = Inl e" ..
  with none assms show ?thesis
    by (auto simp: run_handleStart)
qed

lemma two_chapters_usable:
  "usable_response sample_key sample_parse (Response (Some two_chapters_text)) two_entries"
  by (simp add: usable_response_def sample_key_def truthy_def sample_parse_def
      two_chapters_text_def empty_outline_text_def two_entries_def quoted_def)

lemma outline_step_example:
  "appState initial_session = SETUP
   \<and> usable_response sample_key sample_parse (Response (Some two_chapters_text)) two_entries
   \<and> (\<exists>s'. run (handleStart sample_key sample_parse sample_config)
               [Response (Some two_chapters_text)] initial_session = Some (s', Finished)
          \<and> appState s' = READING \<and> error s' = None
          \<and> stub_outline two_entries (outline (novelData s')))
   \<and> sample_parse ''not json'' = None
   \<and> (\<exists>s'. run (handleStart sample_key sample_parse sample_config)
               [Response (Some ''not json'')] initial_session = Some (s', Finished)
          \<and> appState s' = SETUP \<and> error s' = Some msg_outline_failed
          \<and> novelData s' = novelData initial_session)"
proof -
  have init: "appState initial_session = SETUP"
    by (simp add: initial_session_def)
  have malformed: "sample_parse ''not json'' = None"
    by (simp add: sample_parse_def empty_outline_text_def two_chapters_text_def quoted_def)
  then have unusable:
    "\<forall>es. \<not> usable_response sample_key sample_parse (Response (Some ''not json'')) es"
    by (simp add: usable_response_def)
  from outline_step [OF init, of sample_key sample_parse sample_config
      "Response (Some two_chapters_text)"] two_chapters_usable
  have good: "\<exists>s'. run (handleStart sample_key sample_parse sample_config)
               [Response (Some two_chapters_text)] initial_session = Some (s', Finished)
          \<and> appState s' = READING \<and> error s' = None
          \<and> stub_outline two_entries (outline (novelData s'))"
    by blast
  from outline_step [OF init, of sample_key sample_parse sample_config
      "Response (Some ''not json'')"] unusable
  have bad: "\<exists>s'. run (handleStart sample_key sample_parse sample_config)
               [Response (Some ''not json'')] initial_session = Some (s', Finished)
          \<and> appState s' = SETUP \<and> error s' = Some msg_outline_failed
          \<and> novelData s' = novelData initial_session"
    by blast
  from init two_chapters_usable malformed good bad show ?thesis by blast
qed

text \<open>
  Claim C1: the outline step gives a proper outline and \<open>READING\<close>, or an error in
  \<open>SETUP\<close> and no chapters; a response with zero chapters is to be a hard failure,
  never an empty outline. The program does otherwise on the text of an object whose
  \<^verbatim>\<open>chapters\<close> is the empty array: nothing counts the chapters, \<^verbatim>\<open>handleStart\<close>
  finishes in \<open>READING\<close> with no error and an empty chapter sequence, and in that state
  the reader's render, which reads the current chapter without a guard, throws a
  TypeError.
\<close>

theorem empty_outline_reaches_reading:
  "sample_parse empty_outline_text = Some (JObj [(''chapters'', JArr [])])
   \<and> run (handleStart sample_key sample_parse sample_config)
        [Response (Some empty_outline_text)] initial_session
     = Some (initial_session
               \<lparr>isLoading := False, error := None, appState := READING,
                novelData := \<lparr>config = sample_config, outline = [],
                               currentChapterIndex = 0\<rparr>\<rparr>,
             Finished)
   \<and> reader_heading \<lparr>config = sample_config, outline = [], currentChapterIndex = 0\<rparr>
     = Inl TypeError"
  by (simp add: run_handleStart result_of_def generateNovelOutline_def sample_key_def truthy_def
      sample_parse_def empty_outline_text_def quoted_def outline_of_def reader_heading_def
      at_index_def)

section \<open>Generating a chapter\<close>



section \<open>The guards\<close>

text \<open>
  Claim C3. \<^verbatim>\<open>handleGenerateChapter\<close> on a chapter that has content or is generating,
  and \<^verbatim>\<open>handleTwist\<close> on a chapter that is generating, finish at once: the session is
  the one they were started in, in every component, and no request is made.
\<close>

theorem guarded_no_op:
  assumes "chapter_at s index = Some chapter"
  shows "(truthy (content chapter) \<or> isGenerating chapter = Some True \<longrightarrow>
            run (handleGenerateChapter apiKey (novelData s) index) replies s = Some (s, Finished)
          \<and> calls (handleGenerateChapter apiKey (novelData s) index) replies = [])
       \<and> (isGenerating chapter = Some True \<longrightarrow>
            run (handleTwist apiKey (novelData s) index) replies s = Some (s, Finished)
          \<and> calls (handleTwist apiKey (novelData s) index) replies = [])"
  using assms by (simp add: handleGenerateChapter_def handleTwist_def)

theorem guarded_no_op_witness:
  "chapter_at sample_session 1 = Some sample_dusk
   \<and> truthy (content sample_dusk) \<and> isGenerating sample_dusk = Some True
   \<and> run (handleGenerateChapter sample_key (novelData sample_session) 1) [Failed] sample_session
       = Some (sample_session, Finished)
   \<and> calls (handleGenerateChapter sample_key (novelData sample_session) 1) [Failed] = []
   \<and> run (handleTwist sample_key (novelData sample_session) 1) [Failed] sample_session
       = Some (sample_session, Finished)
   \<and> calls (handleTwist sample_key (novelData sample_session) 1) [Failed] = []"
proof -
  have h: "chapter_at sample_session 1 = Some sample_dusk"
    and g: "truthy (content sample_dusk)" "isGenerating sample_dusk = Some True"
    by (simp_all add: sample_defs at_index_def truthy_def)
  from guarded_no_op [OF h, of sample_key "[Failed]"] h g show ?thesis by blast
qed

section \<open>The twist\<close>





section \<open>Soft failures\<close>

text \<open>
  Claim C6. When the request is made (the key is set, the chapter's title and summary are
  printable) and the provider's response has an empty or absent text,
  \<^verbatim>\<open>generateChapterContent\<close> returns the fixed fallback string and
  \<^verbatim>\<open>generatePlotTwist\<close> returns the chapter's summary as it is; neither throws.
\<close>

theorem soft_failure_fallbacks:
  assumes "truthy apiKey" and "printable chapter" and "\<not> truthy t"
  shows "result_of (generateChapterContent apiKey cfg chapter prev) (Response t)
           = Inr no_text_fallback
       \<and> result_of (generatePlotTwist apiKey cfg chapter prev) (Response t)
           = Inr (summary chapter)"
  using assms
  by (auto simp: result_of_def generateChapterContent_def generatePlotTwist_def truthy_def
      printable_def prints_template split: option.splits)

theorem soft_failure_fallbacks_witness:
  "truthy sample_key \<and> printable sample_dawn \<and> \<not> truthy (Some [])
   \<and> result_of (generateChapterContent sample_key sample_config sample_dawn []) (Response (Some []))
       = Inr no_text_fallback
   \<and> result_of (generatePlotTwist sample_key sample_config sample_dawn []) (Response (Some []))
       = Inr (summary sample_dawn)"
proof -
  have h: "truthy sample_key" "printable sample_dawn" "\<not> truthy (Some [])"
    by (simp_all add: sample_key_def truthy_def sample_dawn_def printable_def prints_string)
  from soft_failure_fallbacks [OF h, of sample_config "[]"] h
  show ?thesis by simp
qed

section \<open>The continuity context\<close>

text \<open>
  Claim C7. Let chapter \<open>index\<close> not be generating, the key be set and titles and
  summaries be printable, so that the requests are made. The context
  that \<^verbatim>\<open>handleGenerateChapter\<close> passes with its content request (when the chapter has
  no content), and that \<^verbatim>\<open>handleTwist\<close> passes with its twist request and with the
  content request after it, is \<open>continuity_context\<close>: one line, made of the word for
  chapter, the id and the summary, per chapter with a smaller index, whether the chapter
  has content or not, in chapter order and joined by newlines. For index 0 it is the
  empty string (in whose place the prompt then shows a fixed sentence, see
  \<open>prior_in_prompt\<close>).
\<close>

theorem continuity_context_supplied:
  assumes "chapter_at s index = Some chapter"
    and "isGenerating chapter \<noteq> Some True"
    and "truthy apiKey"
    and "list_all printable (outline (novelData s))"
  shows "(\<not> truthy (content chapter) \<longrightarrow>
            calls (handleGenerateChapter apiKey (novelData s) index) replies
              = [ContentCall (config (novelData s)) chapter
                   (continuity_context (outline (novelData s)) (nat index))])
       \<and> (\<exists>c'. calls (handleTwist apiKey (novelData s) index) (Response t # rest)
              = [TwistCall (config (novelData s)) chapter
                   (continuity_context (outline (novelData s)) (nat index)),
                 ContentCall (config (novelData s)) c'
                   (continuity_context (outline (novelData s)) (nat index))])
       \<and> continuity_context (outline (novelData s)) 0 = []"
proof (intro conjI impI)
  from assms(1) have "chapter \<in> set (outline (novelData s))"
    by (auto simp: at_index_def split: if_splits)
  with assms(4) have pr: "prints (title chapter)" "prints (summary chapter)"
    by (simp_all add: list_all_iff printable_def)
  note ctx = contextSummary_spec [OF assms(1) assms(4)]
  {
    assume "\<not> truthy (content chapter)"
    with assms pr show "calls (handleGenerateChapter apiKey (novelData s) index) replies
              = [ContentCall (config (novelData s)) chapter
                   (continuity_context (outline (novelData s)) (nat index))]"
      by (cases replies)
        (auto simp: handleGenerateChapter_def generate_failed_def setters await_def
          generateChapterContent_def ctx prints_template split: reply.splits option.splits)
  }
  from assms pr show "\<exists>c'. calls (handleTwist apiKey (novelData s) index) (Response t # rest)
              = [TwistCall (config (novelData s)) chapter
                   (continuity_context (outline (novelData s)) (nat index)),
                 ContentCall (config (novelData s)) c'
                   (continuity_context (outline (novelData s)) (nat index))]"
    by (cases rest)
      (auto simp: handleTwist_def twist_failed_def setters await_def generatePlotTwist_def
        generateChapterContent_def ctx prints_template prints_string
        split: reply.splits option.splits)
  show "continuity_context (outline (novelData s)) 0 = []"
    by (simp add: continuity_context_def)
qed

theorem continuity_context_supplied_witness:
  "chapter_at sample_started 1 = Some (sample_dusk\<lparr>content := None, isGenerating := None\<rparr>)
   \<and> isGenerating (sample_dusk\<lparr>content := None, isGenerating := None\<rparr>) \<noteq> Some True
   \<and> truthy sample_key
   \<and> list_all printable (outline (novelData sample_started))
   \<and> \<not> truthy (content (sample_dusk\<lparr>content := None, isGenerating := None\<rparr>))
   \<and> calls (handleGenerateChapter sample_key (novelData sample_started) 1) [Failed]
       = [ContentCall sample_config (sample_dusk\<lparr>content := None, isGenerating := None\<rparr>)
            (context_word @ ''1: A letter arrives'')]
   \<and> (\<exists>c'. calls (handleTwist sample_key (novelData sample_started) 1) [Response None]
          = [TwistCall sample_config (sample_dusk\<lparr>content := None, isGenerating := None\<rparr>)
               (context_word @ ''1: A letter arrives''),
             ContentCall sample_config c' (context_word @ ''1: A letter arrives'')])"
proof -
  have h: "chapter_at sample_started 1
             = Some (sample_dusk\<lparr>content := None, isGenerating := None\<rparr>)"
    "isGenerating (sample_dusk\<lparr>content := None, isGenerating := None\<rparr>) \<noteq> Some True"
    "truthy sample_key"
    "list_all printable (outline (novelData sample_started))"
    and stub: "\<not> truthy (content (sample_dusk\<lparr>content := None, isGenerating := None\<rparr>))"
    by (simp_all add: sample_defs at_index_def truthy_def printable_def prints_string)
  have ctx: "continuity_context (outline (novelData sample_started)) (nat 1)
               = context_word @ ''1: A letter arrives''"
    by (simp add: sample_defs continuity_context_def decimal_digits printed_def
        template_def)
  have cfg: "config (novelData sample_started) = sample_config"
    by (simp add: sample_started_def)
  from continuity_context_supplied [OF h, of "[Failed]" None "[]"] h stub
  show ?thesis unfolding ctx cfg by blast
qed

section \<open>The cursor\<close>

text \<open>
  Claim C8, as the program has it. In every state a session reaches (by the events the
  page offers and the provider's replies, in any order), the cursor is a valid index into
  the chapter sequence when there are chapters, and is 0 when there are none, as in the
  state the session starts in. In every such state \<^verbatim>\<open>handleSelectChapter\<close> with a valid
  index finishes at once: it sets the cursor to that index, changes nothing else and
  makes no request.
\<close>

theorem cursor_in_reachable_states:
  assumes "(s, ps) \<in> reachable apiKey parse"
  shows "(if outline (novelData s) = [] then currentChapterIndex (novelData s) = 0
          else valid_cursor (novelData s))
       \<and> (\<forall>index. 0 \<le> index \<and> index < int (length (outline (novelData s))) \<longrightarrow>
             run (handleSelectChapter index) replies s
               = Some (s\<lparr>novelData := (novelData s)\<lparr>currentChapterIndex := index\<rparr>\<rparr>, Finished)
           \<and> calls (handleSelectChapter index) replies = []
           \<and> valid_cursor ((novelData s)\<lparr>currentChapterIndex := index\<rparr>))"
  using reachable_invariant [OF assms]
  by (auto simp: cursor_ok_def handleSelectChapter_def setNovelData_def valid_cursor_def
      split: if_splits)

lemma sample_started_reachable: "(sample_started, [Finished]) \<in> reachable sample_key sample_parse"
proof -
  let ?h = "handleStart sample_key sample_parse sample_config"
  let ?r = "Response (Some two_chapters_text)"
  obtain s1 rq k where waiting: "run ?h [] initial_session = Some (s1, Await rq k)"
    by (simp add: handleStart_def setters await_def generateNovelOutline_def sample_key_def
        truthy_def)
  have "run ?h [?r] initial_session = Some (sample_started, Finished)"
    by (simp add: run_handleStart result_of_def generateNovelOutline_def sample_key_def
        truthy_def sample_parse_def two_chapters_text_def empty_outline_text_def quoted_def
        outline_of_def two_entries_def sample_started_def sample_dawn_def sample_dusk_def
        initial_session_def)
  with run_resume [OF waiting, of ?r "[]"]
  have settled: "run (k ?r) [] s1 = Some (sample_started, Finished)" by simp
  have "appState initial_session = SETUP" "\<not> isLoading initial_session"
    by (simp_all add: initial_session_def)
  from reachable.start [OF reachable.initial this waiting]
  have started: "(s1, [Await rq k]) \<in> reachable sample_key sample_parse" by simp
  have "(sample_started, [Await rq k][0 := Finished]) \<in> reachable sample_key sample_parse"
  proof (rule reachable.reply [where r = "Response (Some two_chapters_text)"])
    show "(s1, [Await rq k]) \<in> reachable sample_key sample_parse" by (rule started)
    show "0 < length [Await rq k]" by simp
    show "[Await rq k] ! 0 = Await rq k" by simp
    show "run (k (Response (Some two_chapters_text))) [] s1 = Some (sample_started, Finished)"
      by (rule settled)
  qed
  then show ?thesis by simp
qed

theorem cursor_in_reachable_states_witness:
  "(sample_started, [Finished]) \<in> reachable sample_key sample_parse
   \<and> (0::int) \<le> 1 \<and> 1 < int (length (outline (novelData sample_started)))
   \<and> outline (novelData sample_started) \<noteq> []
   \<and> valid_cursor (novelData sample_started)
   \<and> run (handleSelectChapter 1) [] sample_started
       = Some (sample_started\<lparr>novelData := (novelData sample_started)\<lparr>currentChapterIndex := 1\<rparr>\<rparr>,
               Finished)
   \<and> valid_cursor ((novelData sample_started)\<lparr>currentChapterIndex := 1\<rparr>)"
proof -
  have bounds: "(0::int) \<le> 1" "1 < int (length (outline (novelData sample_started)))"
    "outline (novelData sample_started) \<noteq> []"
    by (simp_all add: sample_started_def)
  from cursor_in_reachable_states [OF sample_started_reachable, of "[]"] bounds
  show ?thesis using sample_started_reachable by auto
qed

theorem initial_cursor_counterexample:
  "(initial_session, []) \<in> reachable sample_key sample_parse
   \<and> \<not> valid_cursor (novelData initial_session)"
proof -
  have "\<not> valid_cursor (novelData initial_session)"
    by (simp add: valid_cursor_def initial_session_def)
  with reachable.initial [of sample_key sample_parse] show ?thesis by simp
qed

section \<open>Export\<close>

text \<open>
  Claim C9. In a session whose chapters are in ascending id order (and have printable
  titles and summaries), \<^verbatim>\<open>handleExport\<close> hands over for download the text \<open>export_spec\<close>: the entries of the chapters whose
  content is not empty, by ascending id, with the delimiter between two neighbours; a
  chapter without content adds nothing. It makes no request, and the session is otherwise
  as before.
\<close>

theorem export_text:
  assumes "sorted (map id' (outline (novelData s)))"
    and "list_all printable (outline (novelData s))"
  shows "run (handleExport (novelData s)) replies s
           = Some (s\<lparr>downloads := downloads s
                       @ [(export_name (novelData s), export_spec (outline (novelData s)))]\<rparr>,
                   Finished)
       \<and> calls (handleExport (novelData s)) replies = []"
  using fullText_spec [OF assms] by (simp add: handleExport_def download_def)

theorem export_text_witness:
  "sorted (map id' (outline (novelData sample_session)))
   \<and> list_all printable (outline (novelData sample_session))
   \<and> run (handleExport (novelData sample_session)) [] sample_session
       = Some (sample_session\<lparr>downloads := downloads sample_session
                 @ [(export_name (novelData sample_session),
                     export_spec (outline (novelData sample_session)))]\<rparr>,
               Finished)
   \<and> calls (handleExport (novelData sample_session)) [] = []
   \<and> export_spec (outline (novelData sample_session))
       = export_word @ ''2: Dusk'' @ [CHR 0x0A, CHR 0x0A] @ ''Night fell.'' @ export_delimiter
         @ export_word @ ''3: Night'' @ [CHR 0x0A, CHR 0x0A] @ ''Nobody came.''"
proof -
  have ids: "sorted (map id' (outline (novelData sample_session)))"
    by (simp add: sample_defs)
  have "export_spec (outline (novelData sample_session))
       = export_word @ ''2: Dusk'' @ [CHR 0x0A, CHR 0x0A] @ ''Night fell.'' @ export_delimiter
         @ export_word @ ''3: Night'' @ [CHR 0x0A, CHR 0x0A] @ ''Nobody came.''"
    by (simp add: sample_defs export_spec_def truthy_def decimal_digits printed_def
        template_def)
  with export_text [OF ids sample_session_printable, of "[]"] ids sample_session_printable
  show ?thesis by simp
qed

section \<open>An index outside the chapter sequence\<close>

text \<open>
  Claim C10. For an index below 0 or not below the number of chapters,
  \<^verbatim>\<open>handleGenerateChapter\<close> and \<^verbatim>\<open>handleTwist\<close> read a field of \<^verbatim>\<open>undefined\<close> in
  their guard and end with an uncaught TypeError: the session is as before (no flag is
  set, nothing is alerted) and no request is made.
\<close>

theorem invalid_index_throws:
  assumes "index < 0 \<or> int (length (outline nd)) \<le> index"
  shows "run (handleGenerateChapter apiKey nd index) replies s = Some (s, Uncaught TypeError)
       \<and> calls (handleGenerateChapter apiKey nd index) replies = []
       \<and> run (handleTwist apiKey nd index) replies s = Some (s, Uncaught TypeError)
       \<and> calls (handleTwist apiKey nd index) replies = []"
  using assms by (auto simp: handleGenerateChapter_def handleTwist_def at_index_def)

theorem invalid_index_throws_witness:
  "int (length (outline (novelData sample_session))) \<le> 3
   \<and> run (handleGenerateChapter sample_key (novelData sample_session) 3) [] sample_session
       = Some (sample_session, Uncaught TypeError)
   \<and> calls (handleGenerateChapter sample_key (novelData sample_session) 3) [] = []
   \<and> run (handleTwist sample_key (novelData sample_session) 3) [] sample_session
       = Some (sample_session, Uncaught TypeError)
   \<and> calls (handleTwist sample_key (novelData sample_session) 3) [] = []"
proof -
  have h: "int (length (outline (novelData sample_session))) \<le> 3"
    by (simp add: sample_defs)
  then have "3 < 0 \<or> int (length (outline (novelData sample_session))) \<le> 3" by simp
  from invalid_index_throws [OF this, of sample_key "[]" sample_session] h
  show ?thesis by simp
qed

end
